theory Spec2Isabelle
  imports Complex_Main
begin

section \<open>JavaScript values and the runtime library\<close>

text \<open>
  The dashboard works on JSON data whose fields are dynamically typed, so record fields are
  modelled as JavaScript values. A finite number is represented by the exact rational value
  of its IEEE double; \<open>NaN\<close> is a value of its own. A string is its sequence of UTF-8
  bytes. \<open>DateObj t\<close> is a \<open>Date\<close> object with time value \<open>t\<close> in milliseconds
  (\<open>None\<close> for an invalid date). \<open>Builtin k\<close> is the member called \<open>k\<close> that every
  object literal inherits from \<open>Object.prototype\<close> (a function, or the prototype
  object itself for \<open>__proto__\<close>). Infinities, negative zero, arrays and other objects do
  not occur in the modelled fields and are left out.
\<close>

datatype jsval =
    Undefined
  | Null
  | Bool bool
  | NaN
  | Num rat
  | Str string
  | DateObj "int option"
  | Builtin string

datatype js_error = TypeError | RangeError | SyntaxError

text \<open>
  A prediction record and the date range of a dataset, as the prediction service sends
  them.
\<close>

record prediction =
  pile_id :: jsval
  observation_date :: jsval
  predicted_fire_date :: jsval
  predicted_days_to_fire_rounded :: jsval
  risk_level :: jsval
  confidence :: jsval
  stockyard :: jsval
  coal_grade :: jsval

record date_range =
  data_start_date :: jsval
  data_end_date :: jsval
  data_years :: "jsval list option"
  primary_year :: jsval

text \<open>
  Library functions of ECMAScript and of \<open>date-fns\<close> that the code calls are not part
  of the repository; they are parameters of the model.
\<close>

record runtime =
  num_to_string :: "rat \<Rightarrow> string"          \<comment> \<open>\<open>String(x)\<close> for a finite number\<close>
  object_to_string :: "jsval \<Rightarrow> string"      \<comment> \<open>\<open>String(o)\<close> for a date or builtin object\<close>
  string_to_number :: "string \<Rightarrow> rat option" \<comment> \<open>\<open>Number(s)\<close>, \<open>None\<close> for \<open>NaN\<close>\<close>
  float_mul :: "rat \<Rightarrow> rat \<Rightarrow> rat"          \<comment> \<open>double multiplication, rounded\<close>
  to_lower_case :: "string \<Rightarrow> string"       \<comment> \<open>\<open>s.toLowerCase()\<close>\<close>
  date_parse :: "jsval \<Rightarrow> int option"        \<comment> \<open>time value of \<open>new Date(v)\<close>, \<open>v\<close> not a date\<close>
  local_year :: "int \<Rightarrow> int"                \<comment> \<open>local calendar year of a time value\<close>
  parse_iso :: "string \<Rightarrow> int option"        \<comment> \<open>date-fns \<open>parseISO\<close>\<close>
  dfns_format :: "jsval \<Rightarrow> string \<Rightarrow> js_error + string"
                                              \<comment> \<open>date-fns \<open>format\<close>; throws on an invalid date\<close>
  sort_by_difference :: "jsval list \<Rightarrow> jsval list"
                                              \<comment> \<open>\<open>xs.sort((a, b) => a - b)\<close>\<close>
  json_stringify :: "date_range \<Rightarrow> string"  \<comment> \<open>\<open>JSON.stringify\<close> of a date range\<close>
  json_parse :: "string \<Rightarrow> js_error + prediction list option"
                                              \<comment> \<open>\<open>JSON.parse\<close> of a stored prediction list\<close>
  type_error_message :: string                \<comment> \<open>the engine's text for a property read of \<open>undefined\<close>\<close>

fun truthy :: "jsval \<Rightarrow> bool" where
  "truthy Undefined = False"
| "truthy Null = False"
| "truthy (Bool b) = b"
| "truthy NaN = False"
| "truthy (Num q) = (q \<noteq> 0)"
| "truthy (Str s) = (s \<noteq> [])"
| "truthy (DateObj t) = True"
| "truthy (Builtin k) = True"

definition js_or :: "jsval \<Rightarrow> jsval \<Rightarrow> jsval" where
  \<comment> \<open>\<open>a || b\<close>\<close>
  "js_or a b = (if truthy a then a else b)"

definition strict_eq :: "jsval \<Rightarrow> jsval \<Rightarrow> bool" where
  \<comment> \<open>\<open>a === b\<close> on primitive values: \<open>NaN\<close> is not equal to itself. (The code
      never compares two date objects, which are equal only when they are the same
      object.)\<close>
  "strict_eq a b = (a = b \<and> a \<noteq> NaN)"

fun to_string :: "runtime \<Rightarrow> jsval \<Rightarrow> string" where
  \<comment> \<open>the conversion of template literals and of property keys\<close>
  "to_string rt Undefined = ''undefined''"
| "to_string rt Null = ''null''"
| "to_string rt (Bool b) = (if b then ''true'' else ''false'')"
| "to_string rt NaN = ''NaN''"
| "to_string rt (Num q) = num_to_string rt q"
| "to_string rt (Str s) = s"
| "to_string rt (DateObj t) = object_to_string rt (DateObj t)"
| "to_string rt (Builtin k) = object_to_string rt (Builtin k)"

fun to_number :: "runtime \<Rightarrow> jsval \<Rightarrow> rat option" where
  \<comment> \<open>\<open>ToNumber\<close>, \<open>None\<close> for \<open>NaN\<close>\<close>
  "to_number rt Undefined = None"
| "to_number rt Null = Some 0"
| "to_number rt (Bool b) = Some (if b then 1 else 0)"
| "to_number rt NaN = None"
| "to_number rt (Num q) = Some q"
| "to_number rt (Str s) = string_to_number rt s"
| "to_number rt (DateObj t) = map_option of_int t"
| "to_number rt (Builtin k) = None"

definition object_prototype_keys :: "string list" where
  "object_prototype_keys =
     [''constructor'', ''__defineGetter__'', ''__defineSetter__'', ''hasOwnProperty'',
      ''__lookupGetter__'', ''__lookupSetter__'', ''isPrototypeOf'',
      ''propertyIsEnumerable'', ''toString'', ''valueOf'', ''__proto__'',
      ''toLocaleString'']"

definition get_prop :: "runtime \<Rightarrow> (string \<times> jsval) list \<Rightarrow> jsval \<Rightarrow> jsval" where
  \<comment> \<open>\<open>obj[k]\<close> on an object literal: own properties first, then \<open>Object.prototype\<close>\<close>
  "get_prop rt obj k =
     (let key = to_string rt k in
      case map_of obj key of
        Some v \<Rightarrow> v
      | None \<Rightarrow> if key \<in> set object_prototype_keys then Builtin key else Undefined)"

section \<open>Text constants of the user interface (UTF-8)\<close>

definition em_dash :: string where
  "em_dash =
     [CHR 0xE2, CHR 0x80, CHR 0x94]"

definition label_critical :: string where
  "label_critical =
     [CHR 0xD0, CHR 0x9A, CHR 0xD1, CHR 0x80, CHR 0xD0, CHR 0xB8, CHR 0xD1,
     CHR 0x82, CHR 0xD0, CHR 0xB8, CHR 0xD1, CHR 0x87, CHR 0xD0, CHR 0xB5,
     CHR 0xD1, CHR 0x81, CHR 0xD0, CHR 0xBA, CHR 0xD0, CHR 0xB8, CHR 0xD0,
     CHR 0xB9]"

definition label_high :: string where
  "label_high =
     [CHR 0xD0, CHR 0x92, CHR 0xD1, CHR 0x8B, CHR 0xD1, CHR 0x81, CHR 0xD0,
     CHR 0xBE, CHR 0xD0, CHR 0xBA, CHR 0xD0, CHR 0xB8, CHR 0xD0, CHR 0xB9]"

definition label_medium :: string where
  "label_medium =
     [CHR 0xD0, CHR 0xA1, CHR 0xD1, CHR 0x80, CHR 0xD0, CHR 0xB5, CHR 0xD0,
     CHR 0xB4, CHR 0xD0, CHR 0xBD, CHR 0xD0, CHR 0xB8, CHR 0xD0, CHR 0xB9]"

definition label_low :: string where
  "label_low =
     [CHR 0xD0, CHR 0x9D, CHR 0xD0, CHR 0xB8, CHR 0xD0, CHR 0xB7, CHR 0xD0,
     CHR 0xBA, CHR 0xD0, CHR 0xB8, CHR 0xD0, CHR 0xB9]"

definition label_unknown :: string where
  "label_unknown =
     [CHR 0xD0, CHR 0x9D, CHR 0xD0, CHR 0xB5, CHR 0xD0, CHR 0xB8, CHR 0xD0,
     CHR 0xB7, CHR 0xD0, CHR 0xB2, CHR 0xD0, CHR 0xB5, CHR 0xD1, CHR 0x81,
     CHR 0xD1, CHR 0x82, CHR 0xD0, CHR 0xBD, CHR 0xD0, CHR 0xBE]"

definition conf_high :: string where
  "conf_high =
     [CHR 0xD0, CHR 0x92, CHR 0xD1, CHR 0x8B, CHR 0xD1, CHR 0x81, CHR 0xD0,
     CHR 0xBE, CHR 0xD0, CHR 0xBA, CHR 0xD0, CHR 0xB0, CHR 0xD1, CHR 0x8F]"

definition conf_medium :: string where
  "conf_medium =
     [CHR 0xD0, CHR 0xA1, CHR 0xD1, CHR 0x80, CHR 0xD0, CHR 0xB5, CHR 0xD0,
     CHR 0xB4, CHR 0xD0, CHR 0xBD, CHR 0xD1, CHR 0x8F, CHR 0xD1, CHR 0x8F]"

definition conf_low :: string where
  "conf_low =
     [CHR 0xD0, CHR 0x9D, CHR 0xD0, CHR 0xB8, CHR 0xD0, CHR 0xB7, CHR 0xD0,
     CHR 0xBA, CHR 0xD0, CHR 0xB0, CHR 0xD1, CHR 0x8F]"

section \<open>Formatting utilities (services/dataProcessor.js)\<close>

definition risk_colors :: "(string \<times> jsval) list" where
  "risk_colors =
     [(''critical'', Str ''#dc2626''), (''high'', Str ''#ea580c''),
      (''medium'', Str ''#eab308''), (''low'', Str ''#16a34a'')]"

definition getRiskColor :: "runtime \<Rightarrow> jsval \<Rightarrow> jsval" where
  "getRiskColor rt riskLevel =
     js_or (get_prop rt risk_colors riskLevel) (get_prop rt risk_colors (Str ''low''))"

definition risk_labels :: "(string \<times> jsval) list" where
  "risk_labels =
     [(''critical'', Str label_critical), (''high'', Str label_high),
      (''medium'', Str label_medium), (''low'', Str label_low)]"

definition getRiskLabel :: "runtime \<Rightarrow> jsval \<Rightarrow> jsval" where
  "getRiskLabel rt riskLevel = js_or (get_prop rt risk_labels riskLevel) (Str label_unknown)"

definition formatDate :: "runtime \<Rightarrow> jsval \<Rightarrow> js_error + string" where
  "formatDate rt date =
     (if \<not> truthy date then Inr []
      else
        let dateObj = (case date of Str s \<Rightarrow> DateObj (parse_iso rt s) | _ \<Rightarrow> date)
        in dfns_format rt dateObj ''dd.MM.yyyy'')"

definition formatDateTime :: "runtime \<Rightarrow> jsval \<Rightarrow> js_error + string" where
  "formatDateTime rt date =
     (if \<not> truthy date then Inr []
      else
        let dateObj = (case date of Str s \<Rightarrow> DateObj (parse_iso rt s) | _ \<Rightarrow> date)
        in dfns_format rt dateObj ''dd.MM.yyyy HH:mm'')"

definition is_unknown :: "jsval \<Rightarrow> bool" where
  \<comment> \<open>\<open>value === null || value === undefined || Number.isNaN(value)\<close>\<close>
  "is_unknown v = (v = Null \<or> v = Undefined \<or> v = NaN)"

definition formatValue :: "jsval \<Rightarrow> jsval \<Rightarrow> jsval" where
  "formatValue v defaultValue = (if is_unknown v then defaultValue else v)"

definition digit_char :: "nat \<Rightarrow> char" where
  "digit_char d = ''0123456789'' ! d"

fun dec_digits :: "nat \<Rightarrow> string" where
  "dec_digits n =
     (if n < 10 then [digit_char n]
      else dec_digits (n div 10) @ [digit_char (n mod 10)])"

declare dec_digits.simps [simp del]

definition fixed_point :: "nat \<Rightarrow> nat \<Rightarrow> string" where
  \<comment> \<open>the decimal numeral of \<open>n / 10 ^ f\<close> with exactly \<open>f\<close> fraction digits\<close>
  "fixed_point n f =
     (let m = dec_digits n in
      if f = 0 then m
      else
        let m' = (if length m \<le> f then replicate (f + 1 - length m) CHR ''0'' @ m else m);
            k = length m'
        in take (k - f) m' @ ''.'' @ drop (k - f) m')"

definition number_toFixed :: "runtime \<Rightarrow> rat option \<Rightarrow> nat \<Rightarrow> js_error + string" where
  \<comment> \<open>\<open>Number.prototype.toFixed\<close>: the nearest numeral with \<open>d\<close> fraction digits, the
      larger one on a tie, computed on the absolute value\<close>
  "number_toFixed rt x d =
     (if d > 100 then Inl RangeError
      else case x of
        None \<Rightarrow> Inr ''NaN''
      | Some q \<Rightarrow>
          if \<bar>q\<bar> \<ge> 10 ^ 21 then Inr (num_to_string rt q)
          else Inr ((if q < 0 then ''-'' else []) @
                    fixed_point (nat \<lfloor>\<bar>q\<bar> * 10 ^ d + 1 / 2\<rfloor>) d))"

definition formatNumber :: "runtime \<Rightarrow> jsval \<Rightarrow> nat \<Rightarrow> jsval \<Rightarrow> js_error + jsval" where
  "formatNumber rt v decimals defaultValue =
     (if is_unknown v then Inr defaultValue
      else map_sum id Str (number_toFixed rt (to_number rt v) decimals))"

definition times_100 :: "runtime \<Rightarrow> rat option \<Rightarrow> rat option" where
  \<comment> \<open>\<open>x * 100\<close> on numbers\<close>
  "times_100 rt x = map_option (\<lambda>q. float_mul rt q 100) x"

definition formatPercentage :: "runtime \<Rightarrow> jsval \<Rightarrow> nat \<Rightarrow> jsval \<Rightarrow> js_error + jsval" where
  "formatPercentage rt v decimals defaultValue =
     (if is_unknown v then Inr defaultValue
      else map_sum id (\<lambda>s. Str (s @ ''%''))
             (number_toFixed rt (times_100 rt (to_number rt v)) decimals))"

definition confidenceMap :: "(string \<times> jsval) list" where
  "confidenceMap =
     [(''high'', Str conf_high), (''medium'', Str conf_medium), (''low'', Str conf_low)]"

definition formatConfidence :: "runtime \<Rightarrow> jsval \<Rightarrow> jsval \<Rightarrow> js_error + jsval" where
  "formatConfidence rt conf defaultValue =
     (if \<not> truthy conf then Inr defaultValue
      else case conf of
        Str s \<Rightarrow>
          Inr (js_or (get_prop rt confidenceMap (Str (to_lower_case rt s))) defaultValue)
      | _ \<Rightarrow> Inl TypeError)"

definition default_placeholder :: jsval where
  \<comment> \<open>the default of the \<open>defaultValue\<close> parameters\<close>
  "default_placeholder = Str em_dash"

section \<open>Metrics summary (services/dataProcessor.js)\<close>

record metrics =
  mae :: jsval
  accuracy_pm1 :: jsval
  accuracy_pm2 :: jsval
  accuracy_pm3 :: jsval
  total_predictions :: jsval
  correct_pm2 :: jsval

record summary =
  summary_mae :: jsval
  accuracyPm2 :: string
  totalPredictions :: jsval
  correctPm2 :: jsval
  meetsTarget :: bool

definition lit_0_7 :: rat where
  \<comment> \<open>the double denoted by the literal \<open>0.7\<close>\<close>
  "lit_0_7 = 3152519739159347 / 4503599627370496"

definition lit_0_69 :: rat where
  \<comment> \<open>the double denoted by the literal \<open>0.69\<close>\<close>
  "lit_0_69 = 1553741871442821 / 2251799813685248"

definition js_ge :: "runtime \<Rightarrow> jsval \<Rightarrow> rat \<Rightarrow> bool" where
  \<comment> \<open>\<open>v >= c\<close> for a finite number \<open>c\<close>: false when \<open>v\<close> converts to \<open>NaN\<close>\<close>
  "js_ge rt v c = (case to_number rt v of None \<Rightarrow> False | Some q \<Rightarrow> c \<le> q)"

definition optional_toFixed :: "runtime \<Rightarrow> jsval \<Rightarrow> nat \<Rightarrow> js_error + jsval" where
  \<comment> \<open>\<open>v?.toFixed(d)\<close>: only numbers have the method\<close>
  "optional_toFixed rt v d =
     (case v of
        Undefined \<Rightarrow> Inr Undefined
      | Null \<Rightarrow> Inr Undefined
      | NaN \<Rightarrow> map_sum id Str (number_toFixed rt None d)
      | Num q \<Rightarrow> map_sum id Str (number_toFixed rt (Some q) d)
      | _ \<Rightarrow> Inl TypeError)"

definition calculateMetricsSummary :: "runtime \<Rightarrow> metrics option \<Rightarrow> js_error + summary option" where
  \<comment> \<open>the argument is \<open>None\<close> when \<open>metrics\<close> is \<open>null\<close> or \<open>undefined\<close>\<close>
  "calculateMetricsSummary rt metrics =
     (case metrics of
        None \<Rightarrow> Inr None
      | Some m \<Rightarrow>
          (case optional_toFixed rt (mae m) 2 of
             Inl e \<Rightarrow> Inl e
           | Inr mae_text \<Rightarrow>
               (case number_toFixed rt (times_100 rt (to_number rt (accuracy_pm2 m))) 1 of
                  Inl e \<Rightarrow> Inl e
                | Inr pct \<Rightarrow>
                    Inr (Some \<lparr>
                      summary_mae = js_or mae_text (Str ''N/A''),
                      accuracyPm2 = pct @ ''%'',
                      totalPredictions = js_or (total_predictions m) (Num 0),
                      correctPm2 = js_or (correct_pm2 m) (Num 0),
                      meetsTarget = js_ge rt (accuracy_pm2 m) lit_0_7 \<rparr>))))"

section \<open>Upload validation (services/dataProcessor.js)\<close>

definition msg_not_csv :: string where
  "msg_not_csv =
     [CHR 0xD0, CHR 0xA4, CHR 0xD0, CHR 0xB0, CHR 0xD0, CHR 0xB9, CHR 0xD0,
     CHR 0xBB] @ '' '' @ [CHR 0xD0, CHR 0xB4, CHR 0xD0, CHR 0xBE, CHR 0xD0,
     CHR 0xBB, CHR 0xD0, CHR 0xB6, CHR 0xD0, CHR 0xB5, CHR 0xD0,
     CHR 0xBD] @ '' '' @ [CHR 0xD0, CHR 0xB1, CHR 0xD1, CHR 0x8B, CHR 0xD1,
     CHR 0x82, CHR 0xD1, CHR 0x8C] @ '' '' @ [CHR 0xD0,
     CHR 0xB2] @ '' '' @ [CHR 0xD1, CHR 0x84, CHR 0xD0, CHR 0xBE, CHR 0xD1,
     CHR 0x80, CHR 0xD0, CHR 0xBC, CHR 0xD0, CHR 0xB0, CHR 0xD1, CHR 0x82,
     CHR 0xD0, CHR 0xB5] @ '' CSV''"

definition msg_too_large :: string where
  "msg_too_large =
     [CHR 0xD0, CHR 0xA0, CHR 0xD0, CHR 0xB0, CHR 0xD0, CHR 0xB7, CHR 0xD0,
     CHR 0xBC, CHR 0xD0, CHR 0xB5, CHR 0xD1, CHR 0x80] @ '' '' @ [CHR 0xD1,
     CHR 0x84, CHR 0xD0, CHR 0xB0, CHR 0xD0, CHR 0xB9, CHR 0xD0, CHR 0xBB,
     CHR 0xD0, CHR 0xB0] @ '' '' @ [CHR 0xD0, CHR 0xBD, CHR 0xD0,
     CHR 0xB5] @ '' '' @ [CHR 0xD0, CHR 0xB4, CHR 0xD0, CHR 0xBE, CHR 0xD0,
     CHR 0xBB, CHR 0xD0, CHR 0xB6, CHR 0xD0, CHR 0xB5, CHR 0xD0,
     CHR 0xBD] @ '' '' @ [CHR 0xD0, CHR 0xBF, CHR 0xD1, CHR 0x80, CHR 0xD0,
     CHR 0xB5, CHR 0xD0, CHR 0xB2, CHR 0xD1, CHR 0x8B, CHR 0xD1, CHR 0x88,
     CHR 0xD0, CHR 0xB0, CHR 0xD1, CHR 0x82, CHR 0xD1, CHR 0x8C] @ '' ''"

record upload_file =
  file_name :: string
  file_size :: nat

record validation =
  valid :: bool
  error :: "string option"

definition endsWith :: "string \<Rightarrow> string \<Rightarrow> bool" where
  "endsWith s suffix = (length suffix \<le> length s \<and> drop (length s - length suffix) s = suffix)"

definition formatFileSize :: "(jsval \<Rightarrow> string) \<Rightarrow> jsval \<Rightarrow> string" where
  \<comment> \<open>the scaling of a non-zero size uses floating-point logarithms and powers
      (\<open>Math.log\<close>, \<open>Math.pow\<close>, \<open>Math.round\<close>); its text is the parameter \<open>scaled\<close>\<close>
  "formatFileSize scaled bytes = (if strict_eq bytes (Num 0) then ''0 Bytes'' else scaled bytes)"

definition default_max_size :: jsval where
  "default_max_size = Num 52428800"

definition js_gt :: "runtime \<Rightarrow> nat \<Rightarrow> jsval \<Rightarrow> bool" where
  \<comment> \<open>\<open>n > v\<close> for a number \<open>n\<close>: false when \<open>v\<close> converts to \<open>NaN\<close>\<close>
  "js_gt rt n v = (case to_number rt v of None \<Rightarrow> False | Some q \<Rightarrow> q < of_nat n)"

definition validateCSVFile :: "runtime \<Rightarrow> (jsval \<Rightarrow> string) \<Rightarrow> jsval \<Rightarrow> upload_file \<Rightarrow> validation" where
  \<comment> \<open>\<open>env_max\<close> is \<open>import.meta.env.VITE_MAX_FILE_SIZE\<close>: a string when it is
      configured, \<open>Undefined\<close> otherwise\<close>
  "validateCSVFile rt scaled env_max f =
     (let maxSize = js_or env_max default_max_size in
      if \<not> endsWith (file_name f) ''.csv'' then
        \<lparr> valid = False, error = Some msg_not_csv \<rparr>
      else if js_gt rt (file_size f) maxSize then
        \<lparr> valid = False, error = Some (msg_too_large @ formatFileSize scaled maxSize) \<rparr>
      else \<lparr> valid = True, error = None \<rparr>)"

section \<open>Calendar events (services/dataProcessor.js, pages/PredictionsCalendar.jsx)\<close>

record match_record =
  m_pile_id :: jsval
  m_predicted_fire_date :: jsval
  m_real_fire_date :: jsval
  m_is_match :: jsval
  m_days_difference :: jsval
  m_stockyard :: jsval
  m_coal_grade :: jsval

text \<open>
  The \<open>extendedProps\<close> of an entry. \<open>PredictionProps pred pileId daysToFire\<close> is the
  spread of the prediction record with the two added keys; the other three shapes carry
  the \<open>type\<close> tags \<open>match\<close>, \<open>prediction\<close> and \<open>real\<close>.
\<close>

datatype ext_props =
    PredictionProps prediction jsval jsval
  | MatchProps (mp_pileId: jsval) (mp_predictedDate: jsval) (mp_realDate: jsval)
      (mp_daysDifference: jsval) (mp_stockyard: jsval) (mp_coalGrade: jsval)
  | ForecastProps (fp_pileId: jsval) (fp_predictedDate: jsval) (fp_stockyard: jsval)
      (fp_coalGrade: jsval)
  | RealProps (rp_pileId: jsval) (rp_realDate: jsval) (rp_stockyard: jsval)
      (rp_coalGrade: jsval)

fun props_type :: "ext_props \<Rightarrow> jsval" where
  "props_type (PredictionProps pred p d) = Undefined"
| "props_type (MatchProps p pd rd dd s c) = Str ''match''"
| "props_type (ForecastProps p pd s c) = Str ''prediction''"
| "props_type (RealProps p rd s c) = Str ''real''"

fun props_pileId :: "ext_props \<Rightarrow> jsval" where
  "props_pileId (PredictionProps pred p d) = p"
| "props_pileId (MatchProps p pd rd dd s c) = p"
| "props_pileId (ForecastProps p pd s c) = p"
| "props_pileId (RealProps p rd s c) = p"

fun props_stockyard :: "ext_props \<Rightarrow> jsval" where
  "props_stockyard (PredictionProps pred p d) = stockyard pred"
| "props_stockyard (MatchProps p pd rd dd s c) = s"
| "props_stockyard (ForecastProps p pd s c) = s"
| "props_stockyard (RealProps p rd s c) = s"

fun props_coalGrade :: "ext_props \<Rightarrow> jsval" where
  "props_coalGrade (PredictionProps pred p d) = Undefined"
| "props_coalGrade (MatchProps p pd rd dd s c) = c"
| "props_coalGrade (ForecastProps p pd s c) = c"
| "props_coalGrade (RealProps p rd s c) = c"

record event =
  event_id :: jsval
  title :: string
  start :: jsval
  backgroundColor :: jsval
  borderColor :: jsval
  extendedProps :: ext_props

definition txt_pile :: string where
  "txt_pile =
     [CHR 0xD0, CHR 0xA8, CHR 0xD1, CHR 0x82, CHR 0xD0, CHR 0xB0, CHR 0xD0,
     CHR 0xB1, CHR 0xD0, CHR 0xB5, CHR 0xD0, CHR 0xBB, CHR 0xD1,
     CHR 0x8C] @ '' #''"

definition txt_stockyard :: string where
  "txt_stockyard =
     [CHR 0x0A, CHR 0xD0, CHR 0xA1, CHR 0xD0, CHR 0xBA, CHR 0xD0, CHR 0xBB,
     CHR 0xD0, CHR 0xB0, CHR 0xD0, CHR 0xB4] @ '' ''"

definition txt_days :: string where
  "txt_days =
     '' '' @ [CHR 0xD0, CHR 0xB4, CHR 0xD0, CHR 0xBD, CHR 0xD0, CHR 0xB5, CHR 0xD0,
     CHR 0xB9]"

definition txt_match :: string where
  "txt_match =
     [CHR 0xE2, CHR 0x9C, CHR 0x85] @ '' '' @ [CHR 0xD0, CHR 0xA1, CHR 0xD0,
     CHR 0xBE, CHR 0xD0, CHR 0xB2, CHR 0xD0, CHR 0xBF, CHR 0xD0, CHR 0xB0,
     CHR 0xD0, CHR 0xB4, CHR 0xD0, CHR 0xB5, CHR 0xD0, CHR 0xBD, CHR 0xD0,
     CHR 0xB8, CHR 0xD0, CHR 0xB5] @ '': '' @ [CHR 0xD0, CHR 0xA8, CHR 0xD1,
     CHR 0x82, CHR 0xD0, CHR 0xB0, CHR 0xD0, CHR 0xB1, CHR 0xD0, CHR 0xB5,
     CHR 0xD0, CHR 0xBB, CHR 0xD1, CHR 0x8C] @ '' #''"

definition txt_prediction :: string where
  "txt_prediction =
     [CHR 0xF0, CHR 0x9F, CHR 0x94, CHR 0xAE] @ '' '' @ [CHR 0xD0, CHR 0x9F,
     CHR 0xD1, CHR 0x80, CHR 0xD0, CHR 0xBE, CHR 0xD0, CHR 0xB3, CHR 0xD0,
     CHR 0xBD, CHR 0xD0, CHR 0xBE, CHR 0xD0, CHR 0xB7] @ '': '' @ [CHR 0xD0,
     CHR 0xA8, CHR 0xD1, CHR 0x82, CHR 0xD0, CHR 0xB0, CHR 0xD0, CHR 0xB1,
     CHR 0xD0, CHR 0xB5, CHR 0xD0, CHR 0xBB, CHR 0xD1, CHR 0x8C] @ '' #''"

definition txt_real :: string where
  "txt_real =
     [CHR 0xF0, CHR 0x9F, CHR 0x94, CHR 0xA5] @ '' '' @ [CHR 0xD0, CHR 0xA0,
     CHR 0xD0, CHR 0xB5, CHR 0xD0, CHR 0xB0, CHR 0xD0, CHR 0xBB, CHR 0xD1,
     CHR 0x8C, CHR 0xD0, CHR 0xBD, CHR 0xD0, CHR 0xBE, CHR 0xD0,
     CHR 0xB5] @ '': '' @ [CHR 0xD0, CHR 0xA8, CHR 0xD1, CHR 0x82, CHR 0xD0,
     CHR 0xB0, CHR 0xD0, CHR 0xB1, CHR 0xD0, CHR 0xB5, CHR 0xD0, CHR 0xBB,
     CHR 0xD1, CHR 0x8C] @ '' #''"

definition prediction_event :: "runtime \<Rightarrow> prediction \<Rightarrow> event" where
  \<comment> \<open>the body of the \<open>map\<close> in \<open>processCalendarEvents\<close>\<close>
  "prediction_event rt pred =
     \<lparr> event_id = Str (''pile_'' @ to_string rt (pile_id pred)),
       title = txt_pile @ to_string rt (pile_id pred) @ '' - '' @ to_string rt (coal_grade pred)
               @ txt_stockyard @ to_string rt (stockyard pred) @ '' | ''
               @ to_string rt (predicted_days_to_fire_rounded pred) @ txt_days,
       start = predicted_fire_date pred,
       backgroundColor = getRiskColor rt (risk_level pred),
       borderColor = getRiskColor rt (risk_level pred),
       extendedProps =
         PredictionProps pred (pile_id pred) (predicted_days_to_fire_rounded pred) \<rparr>"

definition processCalendarEvents :: "runtime \<Rightarrow> prediction list \<Rightarrow> event list" where
  "processCalendarEvents rt preds = map (prediction_event rt) preds"

definition new_Date :: "runtime \<Rightarrow> jsval \<Rightarrow> jsval" where
  \<comment> \<open>\<open>new Date(v)\<close>: a date is copied, anything else is parsed or converted\<close>
  "new_Date rt v = (case v of DateObj t \<Rightarrow> DateObj t | _ \<Rightarrow> DateObj (date_parse rt v))"

definition getFullYear :: "runtime \<Rightarrow> jsval \<Rightarrow> jsval" where
  \<comment> \<open>\<open>d.getFullYear()\<close>: \<open>NaN\<close> for an invalid date\<close>
  "getFullYear rt d =
     (case d of DateObj (Some ms) \<Rightarrow> Num (of_int (local_year rt ms)) | _ \<Rightarrow> NaN)"

definition match_events :: "runtime \<Rightarrow> match_record \<Rightarrow> event list" where
  \<comment> \<open>the entries pushed by one pass of the \<open>forEach\<close> of the comparison branch\<close>
  "match_events rt m =
     (let predDate = new_Date rt (m_predicted_fire_date m);
          realDate = new_Date rt (m_real_fire_date m)
      in
        if truthy (m_is_match m) then
          [\<lparr> event_id = Undefined,
             title = txt_match @ to_string rt (m_pile_id m),
             start = realDate,
             backgroundColor = Str ''#16a34a'',
             borderColor = Str ''#16a34a'',
             extendedProps =
               MatchProps (m_pile_id m) (m_predicted_fire_date m) (m_real_fire_date m)
                 (m_days_difference m) (m_stockyard m) (m_coal_grade m) \<rparr>]
        else
          [\<lparr> event_id = Undefined,
             title = txt_prediction @ to_string rt (m_pile_id m),
             start = predDate,
             backgroundColor = Str ''#3b82f6'',
             borderColor = Str ''#3b82f6'',
             extendedProps =
               ForecastProps (m_pile_id m) (m_predicted_fire_date m) (m_stockyard m)
                 (m_coal_grade m) \<rparr>,
           \<lparr> event_id = Undefined,
             title = txt_real @ to_string rt (m_pile_id m),
             start = realDate,
             backgroundColor = Str ''#dc2626'',
             borderColor = Str ''#dc2626'',
             extendedProps =
               RealProps (m_pile_id m) (m_real_fire_date m) (m_stockyard m)
                 (m_coal_grade m) \<rparr>])"

definition pile_selected :: "jsval set \<Rightarrow> jsval \<Rightarrow> bool" where
  \<comment> \<open>\<open>selectedPiles.size === 0 || selectedPiles.has(id)\<close>; a \<open>Set\<close> finds a
      primitive value by equality\<close>
  "pile_selected selectedPiles pid = (selectedPiles = {} \<or> pid \<in> selectedPiles)"

definition comparison_active :: "bool \<Rightarrow> match_record list option \<Rightarrow> bool" where
  \<comment> \<open>\<open>showComparison && realFiresData && realFiresData.length > 0\<close>\<close>
  "comparison_active showComparison realFiresData =
     (showComparison \<and> (case realFiresData of None \<Rightarrow> False | Some rs \<Rightarrow> rs \<noteq> []))"

definition allEvents ::
  "runtime \<Rightarrow> prediction list \<Rightarrow> bool \<Rightarrow> match_record list option \<Rightarrow> jsval set \<Rightarrow> event list"
where
  \<comment> \<open>the list built before the year filter, for a non-empty prediction list\<close>
  "allEvents rt preds showComparison realFiresData selectedPiles =
     (let filteredPredictions = filter (\<lambda>p. pile_selected selectedPiles (pile_id p)) preds in
      if comparison_active showComparison realFiresData then
        let filteredRealFires =
              filter (\<lambda>m. pile_selected selectedPiles (m_pile_id m)) 
                (case realFiresData of None \<Rightarrow> [] | Some rs \<Rightarrow> rs)
        in concat (map (match_events rt) filteredRealFires)
      else processCalendarEvents rt filteredPredictions)"

definition event_in_year :: "runtime \<Rightarrow> jsval \<Rightarrow> event \<Rightarrow> bool" where
  \<comment> \<open>\<open>new Date(event.start).getFullYear() === currentYear\<close>\<close>
  "event_in_year rt currentYear e =
     strict_eq (getFullYear rt (new_Date rt (start e))) currentYear"

definition events ::
  "runtime \<Rightarrow> prediction list option \<Rightarrow> jsval \<Rightarrow> bool \<Rightarrow> match_record list option \<Rightarrow>
   jsval set \<Rightarrow> event list"
where
  \<comment> \<open>the \<open>useMemo\<close> of the calendar page; \<open>None\<close> is an undefined prediction list\<close>
  "events rt predictions currentYear showComparison realFiresData selectedPiles =
     (case predictions of
        None \<Rightarrow> []
      | Some preds \<Rightarrow>
          if preds = [] then []
          else filter (event_in_year rt currentYear)
                 (allEvents rt preds showComparison realFiresData selectedPiles))"

section \<open>Per-date statistics (pages/DatePileMatrix.jsx)\<close>

record date_stats =
  total :: nat
  critical :: nat
  high :: nat
  medium :: nat
  low :: nat

definition count_risk :: "string \<Rightarrow> prediction list \<Rightarrow> nat" where
  \<comment> \<open>\<open>filtered.filter(p => p.risk_level === level).length\<close>\<close>
  "count_risk level ps = length (filter (\<lambda>p. strict_eq (risk_level p) (Str level)) ps)"

definition pilesForDate :: "jsval \<Rightarrow> prediction list \<Rightarrow> prediction list" where
  "pilesForDate selectedDate preds =
     (if truthy selectedDate \<and> preds \<noteq> []
      then filter (\<lambda>p. strict_eq (predicted_fire_date p) selectedDate) preds
      else [])"

definition dateStats :: "jsval \<Rightarrow> prediction list \<Rightarrow> date_stats" where
  "dateStats selectedDate preds =
     (if truthy selectedDate \<and> preds \<noteq> [] then
        let filtered = filter (\<lambda>p. strict_eq (predicted_fire_date p) selectedDate) preds in
        \<lparr> total = length filtered,
          critical = count_risk ''critical'' filtered,
          high = count_risk ''high'' filtered,
          medium = count_risk ''medium'' filtered,
          low = count_risk ''low'' filtered \<rparr>
      else \<lparr> total = 0, critical = 0, high = 0, medium = 0, low = 0 \<rparr>)"

definition card_risk_level :: "prediction \<Rightarrow> jsval" where
  \<comment> \<open>the level under which a pile card of the same page is rendered:
      \<open>pile.risk_level || 'low'\<close>\<close>
  "card_risk_level pile = js_or (risk_level pile) (Str ''low'')"

section \<open>Page state and service calls (pages/PredictionsCalendar.jsx, pages/Dashboard.jsx)\<close>

text \<open>
  A service call is asynchronous; its handler is modelled as one transition of the page
  state, with the outcome of the call as an input. A rejected call carries the error's
  \<open>response.data.detail\<close> and \<open>message\<close> (\<open>Undefined\<close> when absent); a resolved
  call carries the response, \<open>None\<close> when it is \<open>undefined\<close> or \<open>null\<close>. Messages
  shown with \<open>alert\<close> and lines logged with \<open>console.error\<close> are appended to the
  state; writes to local storage are assumed to succeed.
\<close>

record api_error =
  detail :: jsval
  message :: jsval

datatype 'a outcome = Rejected api_error | Resolved 'a

record evaluation = metrics +
  matched_predictions :: "match_record list option"

record predict_response =
  r_predictions :: "prediction list option"
  r_date_range :: "date_range option"

record calendar_state =
  predictions :: "prediction list option"
  loading :: bool
  dateRange :: "date_range option"
  currentYear :: jsval
  availableYears :: "jsval list"
  realFiresData :: "match_record list option"
  showComparison :: bool
  evaluationMetrics :: "metrics option"
  selectedPiles :: "jsval set"
  availablePiles :: "jsval list"
  storage :: "string \<rightharpoonup> string"
  calendar_date :: "jsval option"
  alerts :: "string list"
  console_errors :: "string list"

definition msg_no_fires :: string where
  "msg_no_fires =
     [CHR 0xD0, CHR 0x94, CHR 0xD0, CHR 0xBB, CHR 0xD1,
     CHR 0x8F] @ '' '' @ [CHR 0xD1, CHR 0x81, CHR 0xD1, CHR 0x80, CHR 0xD0,
     CHR 0xB0, CHR 0xD0, CHR 0xB2, CHR 0xD0, CHR 0xBD, CHR 0xD0, CHR 0xB5,
     CHR 0xD0, CHR 0xBD, CHR 0xD0, CHR 0xB8, CHR 0xD1,
     CHR 0x8F] @ '' '' @ [CHR 0xD0, CHR 0xBD, CHR 0xD0, CHR 0xB5, CHR 0xD0,
     CHR 0xBE, CHR 0xD0, CHR 0xB1, CHR 0xD1, CHR 0x85, CHR 0xD0, CHR 0xBE,
     CHR 0xD0, CHR 0xB4, CHR 0xD0, CHR 0xB8, CHR 0xD0, CHR 0xBC, CHR 0xD0,
     CHR 0xBE] @ '' '' @ [CHR 0xD1, CHR 0x81, CHR 0xD0, CHR 0xBD, CHR 0xD0,
     CHR 0xB0, CHR 0xD1, CHR 0x87, CHR 0xD0, CHR 0xB0, CHR 0xD0, CHR 0xBB,
     CHR 0xD0, CHR 0xB0] @ '' '' @ [CHR 0xD0, CHR 0xB7, CHR 0xD0, CHR 0xB0,
     CHR 0xD0, CHR 0xB3, CHR 0xD1, CHR 0x80, CHR 0xD1, CHR 0x83, CHR 0xD0,
     CHR 0xB7, CHR 0xD0, CHR 0xB8, CHR 0xD1, CHR 0x82, CHR 0xD1,
     CHR 0x8C] @ '' '' @ [CHR 0xD1, CHR 0x84, CHR 0xD0, CHR 0xB0, CHR 0xD0,
     CHR 0xB9, CHR 0xD0, CHR 0xBB] @ '' fires.csv '' @ [CHR 0xD0, CHR 0xBD,
     CHR 0xD0, CHR 0xB0] @ '' '' @ [CHR 0xD1, CHR 0x81, CHR 0xD1, CHR 0x82,
     CHR 0xD1, CHR 0x80, CHR 0xD0, CHR 0xB0, CHR 0xD0, CHR 0xBD, CHR 0xD0,
     CHR 0xB8, CHR 0xD1, CHR 0x86, CHR 0xD0, CHR 0xB5] @ '' Dashboard.''"

definition msg_no_matches :: string where
  "msg_no_matches =
     [CHR 0xD0, CHR 0x9E, CHR 0xD1, CHR 0x82, CHR 0xD0, CHR 0xB2, CHR 0xD0,
     CHR 0xB5, CHR 0xD1, CHR 0x82] @ '' '' @ [CHR 0xD0, CHR 0xBE, CHR 0xD1,
     CHR 0x82] @ '' '' @ [CHR 0xD1, CHR 0x81, CHR 0xD0, CHR 0xB5, CHR 0xD1,
     CHR 0x80, CHR 0xD0, CHR 0xB2, CHR 0xD0, CHR 0xB5, CHR 0xD1, CHR 0x80,
     CHR 0xD0, CHR 0xB0] @ '' '' @ [CHR 0xD0, CHR 0xBD, CHR 0xD0,
     CHR 0xB5] @ '' '' @ [CHR 0xD1, CHR 0x81, CHR 0xD0, CHR 0xBE, CHR 0xD0,
     CHR 0xB4, CHR 0xD0, CHR 0xB5, CHR 0xD1, CHR 0x80, CHR 0xD0, CHR 0xB6,
     CHR 0xD0, CHR 0xB8, CHR 0xD1, CHR 0x82] @ '' '' @ [CHR 0xD0, CHR 0xB4,
     CHR 0xD0, CHR 0xB0, CHR 0xD0, CHR 0xBD, CHR 0xD0, CHR 0xBD, CHR 0xD1,
     CHR 0x8B, CHR 0xD1, CHR 0x85] @ '' '' @ [CHR 0xD0, CHR 0xB4, CHR 0xD0,
     CHR 0xBB, CHR 0xD1, CHR 0x8F] @ '' '' @ [CHR 0xD1, CHR 0x81, CHR 0xD1,
     CHR 0x80, CHR 0xD0, CHR 0xB0, CHR 0xD0, CHR 0xB2, CHR 0xD0, CHR 0xBD,
     CHR 0xD0, CHR 0xB5, CHR 0xD0, CHR 0xBD, CHR 0xD0, CHR 0xB8, CHR 0xD1,
     CHR 0x8F] @ ''.''"

definition msg_load_failed :: string where
  "msg_load_failed =
     [CHR 0xD0, CHR 0x9D, CHR 0xD0, CHR 0xB5] @ '' '' @ [CHR 0xD1, CHR 0x83,
     CHR 0xD0, CHR 0xB4, CHR 0xD0, CHR 0xB0, CHR 0xD0, CHR 0xBB, CHR 0xD0,
     CHR 0xBE, CHR 0xD1, CHR 0x81, CHR 0xD1, CHR 0x8C] @ '' '' @ [CHR 0xD0,
     CHR 0xB7, CHR 0xD0, CHR 0xB0, CHR 0xD0, CHR 0xB3, CHR 0xD1, CHR 0x80,
     CHR 0xD1, CHR 0x83, CHR 0xD0, CHR 0xB7, CHR 0xD0, CHR 0xB8, CHR 0xD1,
     CHR 0x82, CHR 0xD1, CHR 0x8C] @ '' '' @ [CHR 0xD0, CHR 0xB4, CHR 0xD0,
     CHR 0xB0, CHR 0xD0, CHR 0xBD, CHR 0xD0, CHR 0xBD, CHR 0xD1, CHR 0x8B,
     CHR 0xD0, CHR 0xB5] @ '' '' @ [CHR 0xD0, CHR 0xBE] @ '' '' @ [CHR 0xD1,
     CHR 0x80, CHR 0xD0, CHR 0xB5, CHR 0xD0, CHR 0xB0, CHR 0xD0, CHR 0xBB,
     CHR 0xD1, CHR 0x8C, CHR 0xD0, CHR 0xBD, CHR 0xD1, CHR 0x8B, CHR 0xD1,
     CHR 0x85] @ '' '' @ [CHR 0xD0, CHR 0xB2, CHR 0xD0, CHR 0xBE, CHR 0xD0,
     CHR 0xB7, CHR 0xD0, CHR 0xB3, CHR 0xD0, CHR 0xBE, CHR 0xD1, CHR 0x80,
     CHR 0xD0, CHR 0xB0, CHR 0xD0, CHR 0xBD, CHR 0xD0, CHR 0xB8, CHR 0xD1,
     CHR 0x8F, CHR 0xD1, CHR 0x85] @ ''. '' @ [CHR 0xD0, CHR 0xA3, CHR 0xD0,
     CHR 0xB1, CHR 0xD0, CHR 0xB5, CHR 0xD0, CHR 0xB4, CHR 0xD0, CHR 0xB8,
     CHR 0xD1, CHR 0x82, CHR 0xD0, CHR 0xB5, CHR 0xD1, CHR 0x81, CHR 0xD1,
     CHR 0x8C] @ '', '' @ [CHR 0xD1, CHR 0x87, CHR 0xD1, CHR 0x82, CHR 0xD0,
     CHR 0xBE] @ '' '' @ [CHR 0xD1, CHR 0x84, CHR 0xD0, CHR 0xB0, CHR 0xD0,
     CHR 0xB9, CHR 0xD0, CHR 0xBB] @ '' fires.csv '' @ [CHR 0xD0, CHR 0xB7,
     CHR 0xD0, CHR 0xB0, CHR 0xD0, CHR 0xB3, CHR 0xD1, CHR 0x80, CHR 0xD1,
     CHR 0x83, CHR 0xD0, CHR 0xB6, CHR 0xD0, CHR 0xB5, CHR 0xD0,
     CHR 0xBD] @ '' '' @ [CHR 0xD0, CHR 0xB8] @ '' '' @ [CHR 0xD1, CHR 0x81,
     CHR 0xD0, CHR 0xB5, CHR 0xD1, CHR 0x80, CHR 0xD0, CHR 0xB2, CHR 0xD0,
     CHR 0xB5, CHR 0xD1, CHR 0x80] @ '' '' @ [CHR 0xD0, CHR 0xB4, CHR 0xD0,
     CHR 0xBE, CHR 0xD1, CHR 0x81, CHR 0xD1, CHR 0x82, CHR 0xD1, CHR 0x83,
     CHR 0xD0, CHR 0xBF, CHR 0xD0, CHR 0xB5, CHR 0xD0, CHR 0xBD] @ ''.''"

definition error_message :: "api_error \<Rightarrow> jsval" where
  \<comment> \<open>\<open>error.response?.data?.detail || error.message || '...'\<close>\<close>
  "error_message err = js_or (detail err) (js_or (message err) (Str msg_load_failed))"

definition no_matches_error :: api_error where
  \<comment> \<open>the \<open>Error\<close> thrown when the response lacks matched predictions\<close>
  "no_matches_error = \<lparr> detail = Undefined, message = Str msg_no_matches \<rparr>"

definition evaluation_failed :: "runtime \<Rightarrow> api_error \<Rightarrow> calendar_state \<Rightarrow> calendar_state" where
  \<comment> \<open>the \<open>catch\<close> and \<open>finally\<close> blocks of \<open>loadRealFiresData\<close>\<close>
  "evaluation_failed rt err st =
     st \<lparr> console_errors := console_errors st @ [''Error loading real fires data:''],
          alerts := alerts st @ [to_string rt (error_message err)],
          showComparison := False,
          loading := False \<rparr>"

definition loadRealFiresData ::
  "runtime \<Rightarrow> evaluation option outcome \<Rightarrow> calendar_state \<Rightarrow> calendar_state"
where
  "loadRealFiresData rt call st =
     (if storage st ''firesUploaded'' \<noteq> Some ''true'' then
        st \<lparr> alerts := alerts st @ [msg_no_fires] \<rparr>
      else
        let st1 = st \<lparr> loading := True \<rparr> in
        case call of
          Rejected err \<Rightarrow> evaluation_failed rt err st1
        | Resolved None \<Rightarrow> evaluation_failed rt no_matches_error st1
        | Resolved (Some response) \<Rightarrow>
            (case matched_predictions response of
               None \<Rightarrow> evaluation_failed rt no_matches_error st1
             | Some ms \<Rightarrow>
                 st1 \<lparr> realFiresData := Some ms,
                       evaluationMetrics := Some (metrics.truncate response),
                       showComparison := True,
                       loading := False \<rparr>))"

definition unique_piles :: "runtime \<Rightarrow> prediction list \<Rightarrow> jsval list" where
  \<comment> \<open>\<open>[...new Set(ps.map(p => p.pile_id))].sort((a, b) => a - b)\<close>: a set keeps
      the first occurrence of each value\<close>
  "unique_piles rt ps = sort_by_difference rt (rev (remdups (rev (map pile_id ps))))"

definition predictions_fallback :: "runtime \<Rightarrow> calendar_state \<Rightarrow> js_error option \<times> calendar_state" where
  \<comment> \<open>the \<open>catch\<close> and \<open>finally\<close> blocks of \<open>fetchPredictions\<close>: the cached list
      replaces the predictions; an exception of \<open>JSON.parse\<close> is not caught\<close>
  "predictions_fallback rt st =
     (let st1 = st \<lparr> console_errors := console_errors st @ [''Error fetching predictions:''] \<rparr>
      in case storage st1 ''predictions'' of
           None \<Rightarrow> (None, st1 \<lparr> loading := False \<rparr>)
         | Some stored \<Rightarrow>
             if stored = [] then (None, st1 \<lparr> loading := False \<rparr>)
             else (case json_parse rt stored of
                     Inl e \<Rightarrow> (Some e, st1 \<lparr> loading := False \<rparr>)
                   | Inr ps \<Rightarrow> (None, st1 \<lparr> predictions := ps, loading := False \<rparr>)))"

definition fetchPredictions ::
  "runtime \<Rightarrow> jsval \<Rightarrow> bool \<Rightarrow> predict_response option outcome \<Rightarrow> calendar_state \<Rightarrow>
   js_error option \<times> calendar_state"
where
  \<comment> \<open>\<open>now_year\<close> is \<open>new Date().getFullYear()\<close>; \<open>has_calendar\<close> tells whether
      \<open>calendarRef.current\<close> is set; the first component is an uncaught exception\<close>
  "fetchPredictions rt now_year has_calendar call st =
     (let st1 = st \<lparr> loading := True \<rparr> in
      case call of
        Rejected err \<Rightarrow> predictions_fallback rt st1
      | Resolved None \<Rightarrow> predictions_fallback rt st1
      | Resolved (Some response) \<Rightarrow>
          let st2 = st1 \<lparr> predictions := r_predictions response \<rparr> in
          (case r_predictions response of
             None \<Rightarrow> predictions_fallback rt st2
           | Some ps \<Rightarrow>
               let piles = unique_piles rt ps;
                   st3 = st2 \<lparr> availablePiles := piles, selectedPiles := set piles \<rparr>
               in (case r_date_range response of
                     None \<Rightarrow> (None, st3 \<lparr> loading := False \<rparr>)
                   | Some dr \<Rightarrow>
                       let years = (case data_years dr of None \<Rightarrow> [] | Some ys \<Rightarrow> ys);
                           primaryYear =
                             js_or (primary_year dr)
                               (if years \<noteq> [] then last years else now_year)
                       in (None,
                           st3 \<lparr> dateRange := Some dr,
                                 storage := (storage st3)
                                   (''predictionDateRange'' \<mapsto> json_stringify rt dr),
                                 availableYears := years,
                                 currentYear := primaryYear,
                                 calendar_date :=
                                   (if has_calendar then Some (data_end_date dr)
                                    else calendar_date st3),
                                 loading := False \<rparr>))))"

record dashboard_state =
  supplies :: "upload_file option"
  fires :: "upload_file option"
  temperature :: "upload_file option"
  weather :: "upload_file list"
  predicting :: bool
  error_text :: jsval
  success :: jsval
  d_dateRange :: "date_range option"
  d_storage :: "string \<rightharpoonup> string"
  navigation :: "string option"

definition msg_need_files :: string where
  "msg_need_files =
     [CHR 0xD0, CHR 0x9D, CHR 0xD0, CHR 0xB5, CHR 0xD0, CHR 0xBE, CHR 0xD0,
     CHR 0xB1, CHR 0xD1, CHR 0x85, CHR 0xD0, CHR 0xBE, CHR 0xD0, CHR 0xB4,
     CHR 0xD0, CHR 0xB8, CHR 0xD0, CHR 0xBC, CHR 0xD0,
     CHR 0xBE] @ '' '' @ [CHR 0xD0, CHR 0xB7, CHR 0xD0, CHR 0xB0, CHR 0xD0,
     CHR 0xB3, CHR 0xD1, CHR 0x80, CHR 0xD1, CHR 0x83, CHR 0xD0, CHR 0xB7,
     CHR 0xD0, CHR 0xB8, CHR 0xD1, CHR 0x82, CHR 0xD1,
     CHR 0x8C] @ '' '' @ [CHR 0xD0, CHR 0xBE, CHR 0xD0, CHR 0xB1, CHR 0xD1,
     CHR 0x8F, CHR 0xD0, CHR 0xB7, CHR 0xD0, CHR 0xB0, CHR 0xD1, CHR 0x82,
     CHR 0xD0, CHR 0xB5, CHR 0xD0, CHR 0xBB, CHR 0xD1, CHR 0x8C, CHR 0xD0,
     CHR 0xBD, CHR 0xD1, CHR 0x8B, CHR 0xD0, CHR 0xB5] @ '' '' @ [CHR 0xD1,
     CHR 0x84, CHR 0xD0, CHR 0xB0, CHR 0xD0, CHR 0xB9, CHR 0xD0, CHR 0xBB,
     CHR 0xD1, CHR 0x8B] @ '': '' @ [CHR 0xD0, CHR 0xBF, CHR 0xD0, CHR 0xBE,
     CHR 0xD1, CHR 0x81, CHR 0xD1, CHR 0x82, CHR 0xD0, CHR 0xB0, CHR 0xD0,
     CHR 0xB2, CHR 0xD0, CHR 0xBA, CHR 0xD0, CHR 0xB8] @ '', '' @ [CHR 0xD1,
     CHR 0x82, CHR 0xD0, CHR 0xB5, CHR 0xD0, CHR 0xBC, CHR 0xD0, CHR 0xBF,
     CHR 0xD0, CHR 0xB5, CHR 0xD1, CHR 0x80, CHR 0xD0, CHR 0xB0, CHR 0xD1,
     CHR 0x82, CHR 0xD1, CHR 0x83, CHR 0xD1, CHR 0x80, CHR 0xD0,
     CHR 0xB0] @ '' '' @ [CHR 0xD0, CHR 0xB8] @ '' '' @ [CHR 0xD1, CHR 0x85,
     CHR 0xD0, CHR 0xBE, CHR 0xD1, CHR 0x82, CHR 0xD1,
     CHR 0x8F] @ '' '' @ [CHR 0xD0, CHR 0xB1, CHR 0xD1,
     CHR 0x8B] @ '' '' @ [CHR 0xD0, CHR 0xBE, CHR 0xD0, CHR 0xB4, CHR 0xD0,
     CHR 0xB8, CHR 0xD0, CHR 0xBD] @ '' '' @ [CHR 0xD1, CHR 0x84, CHR 0xD0,
     CHR 0xB0, CHR 0xD0, CHR 0xB9, CHR 0xD0, CHR 0xBB] @ '' '' @ [CHR 0xD0,
     CHR 0xBF, CHR 0xD0, CHR 0xBE, CHR 0xD0, CHR 0xB3, CHR 0xD0, CHR 0xBE,
     CHR 0xD0, CHR 0xB4, CHR 0xD1, CHR 0x8B]"

definition msg_predict_ok :: string where
  "msg_predict_ok =
     [CHR 0xD0, CHR 0x9F, CHR 0xD1, CHR 0x80, CHR 0xD0, CHR 0xBE, CHR 0xD0,
     CHR 0xB3, CHR 0xD0, CHR 0xBD, CHR 0xD0, CHR 0xBE, CHR 0xD0,
     CHR 0xB7] @ '' '' @ [CHR 0xD1, CHR 0x83, CHR 0xD1, CHR 0x81, CHR 0xD0,
     CHR 0xBF, CHR 0xD0, CHR 0xB5, CHR 0xD1, CHR 0x88, CHR 0xD0, CHR 0xBD,
     CHR 0xD0, CHR 0xBE] @ '' '' @ [CHR 0xD0, CHR 0xB2, CHR 0xD1, CHR 0x8B,
     CHR 0xD0, CHR 0xBF, CHR 0xD0, CHR 0xBE, CHR 0xD0, CHR 0xBB, CHR 0xD0,
     CHR 0xBD, CHR 0xD0, CHR 0xB5, CHR 0xD0, CHR 0xBD] @ ''!''"

definition msg_predict_failed :: string where
  "msg_predict_failed =
     [CHR 0xD0, CHR 0x9E, CHR 0xD1, CHR 0x88, CHR 0xD0, CHR 0xB8, CHR 0xD0,
     CHR 0xB1, CHR 0xD0, CHR 0xBA, CHR 0xD0, CHR 0xB0] @ '' '' @ [CHR 0xD0,
     CHR 0xBF, CHR 0xD1, CHR 0x80, CHR 0xD0, CHR 0xB8] @ '' '' @ [CHR 0xD0,
     CHR 0xB2, CHR 0xD1, CHR 0x8B, CHR 0xD0, CHR 0xBF, CHR 0xD0, CHR 0xBE,
     CHR 0xD0, CHR 0xBB, CHR 0xD0, CHR 0xBD, CHR 0xD0, CHR 0xB5, CHR 0xD0,
     CHR 0xBD, CHR 0xD0, CHR 0xB8, CHR 0xD0, CHR 0xB8] @ '' '' @ [CHR 0xD0,
     CHR 0xBF, CHR 0xD1, CHR 0x80, CHR 0xD0, CHR 0xBE, CHR 0xD0, CHR 0xB3,
     CHR 0xD0, CHR 0xBD, CHR 0xD0, CHR 0xBE, CHR 0xD0, CHR 0xB7, CHR 0xD0,
     CHR 0xB0]"

definition handlePredict ::
  "runtime \<Rightarrow> predict_response option outcome \<Rightarrow> dashboard_state \<Rightarrow> dashboard_state"
where
  \<comment> \<open>\<open>error_text\<close> is the state \<open>error\<close>; \<open>navigation\<close> is the route of the
      scheduled \<open>navigate\<close>\<close>
  "handlePredict rt call st =
     (if supplies st = None \<or> temperature st = None \<or> weather st = [] then
        st \<lparr> error_text := Str msg_need_files \<rparr>
      else
        let st1 = st \<lparr> predicting := True, error_text := Null \<rparr> in
        case call of
          Rejected err \<Rightarrow>
            st1 \<lparr> error_text := js_or (message err) (Str msg_predict_failed),
                  predicting := False \<rparr>
        | Resolved None \<Rightarrow>
            st1 \<lparr> error_text := js_or (Str (type_error_message rt)) (Str msg_predict_failed),
                  predicting := False \<rparr>
        | Resolved (Some result) \<Rightarrow>
            let st2 =
                  (case r_date_range result of
                     None \<Rightarrow> st1
                   | Some dr \<Rightarrow>
                       st1 \<lparr> d_dateRange := Some dr,
                             d_storage := (d_storage st1)
                               (''predictionDateRange'' \<mapsto> json_stringify rt dr) \<rparr>)
            in st2 \<lparr> success := Str msg_predict_ok,
                     navigation := Some ''/calendar'',
                     predicting := False \<rparr>)"

section \<open>A runtime instance and fixtures for evaluating examples\<close>

definition pile :: "rat \<Rightarrow> string \<Rightarrow> jsval \<Rightarrow> prediction" where
  \<comment> \<open>a prediction record for a pile id, a predicted fire date and a risk level\<close>
  "pile n d r =
     \<lparr> pile_id = Num n, observation_date = Str ''2023-06-15'', predicted_fire_date = Str d,
       predicted_days_to_fire_rounded = Num 5, risk_level = r, confidence = Str ''high'',
       stockyard = Num 3, coal_grade = Str ''A1'' \<rparr>"

definition matched :: "rat \<Rightarrow> string \<Rightarrow> string \<Rightarrow> bool \<Rightarrow> match_record" where
  \<comment> \<open>an evaluation match record for a pile id, a predicted and a real fire date\<close>
  "matched n pd rd b =
     \<lparr> m_pile_id = Num n, m_predicted_fire_date = Str pd, m_real_fire_date = Str rd,
       m_is_match = Bool b, m_days_difference = Num 1, m_stockyard = Num 3,
       m_coal_grade = Str ''A1'' \<rparr>"

definition stored_predictions :: string where
  \<comment> \<open>the JSON text of the list with the one record \<open>pile 1 ''2024-05-01'' (Str ''high'')\<close>\<close>
  "stored_predictions =
     ''[{'' @ [CHR 0x22] @ ''pile_id'' @ [CHR 0x22] @ '':1,'' @ [CHR 0x22] @
     ''observation_date'' @ [CHR 0x22] @ '':'' @ [CHR 0x22] @ ''2023-06-15'' @
     [CHR 0x22] @ '','' @ [CHR 0x22] @ ''predicted_fire_date'' @ [CHR 0x22] @ '':'' @
     [CHR 0x22] @ ''2024-05-01'' @ [CHR 0x22] @ '','' @ [CHR 0x22] @
     ''predicted_days_to_fire_rounded'' @ [CHR 0x22] @ '':5,'' @ [CHR 0x22] @
     ''risk_level'' @ [CHR 0x22] @ '':'' @ [CHR 0x22] @ ''high'' @ [CHR 0x22] @ '','' @
     [CHR 0x22] @ ''confidence'' @ [CHR 0x22] @ '':'' @ [CHR 0x22] @ ''high'' @
     [CHR 0x22] @ '','' @ [CHR 0x22] @ ''stockyard'' @ [CHR 0x22] @ '':3,'' @
     [CHR 0x22] @ ''coal_grade'' @ [CHR 0x22] @ '':'' @ [CHR 0x22] @ ''A1'' @
     [CHR 0x22] @ ''}]''"

definition sample_time :: "string \<Rightarrow> int option" where
  \<comment> \<open>time values of four ISO dates, as \<open>Date.parse\<close> gives them\<close>
  "sample_time s =
     (if s = ''2024-05-01'' then Some 1714521600000
      else if s = ''2024-01-02'' then Some 1704153600000
      else if s = ''2023-12-30'' then Some 1703894400000
      else if s = ''2023-06-15'' then Some 1686787200000
      else None)"

definition sample_year :: "int \<Rightarrow> int" where
  \<comment> \<open>the calendar year of a time value of 2023 or 2024 in the UTC time zone\<close>
  "sample_year ms = (if 1704067200000 \<le> ms then 2024 else 2023)"

definition utc_sample :: runtime where
  \<comment> \<open>an instance of the parameters that agrees with an engine in the UTC time zone on
      the inputs of the examples: integers print as decimal numerals, the products that
      occur are formed exactly, a lower-case string is its own lower case, a sorted list
      stays as it is, and the four dates and the stored list are tabulated; the examples do
      not reach \<open>dfns_format\<close>, \<open>json_stringify\<close> or \<open>object_to_string\<close>\<close>
  "utc_sample =
     \<lparr> num_to_string = (\<lambda>q. (if q < 0 then ''-'' else []) @ dec_digits (nat \<lfloor>\<bar>q\<bar>\<rfloor>)),
       object_to_string = (\<lambda>v. ''[object Object]''),
       string_to_number = (\<lambda>s. if s = ''1000'' then Some 1000 else None),
       float_mul = (\<lambda>a b. a * b),
       to_lower_case = (\<lambda>s. s),
       date_parse = (\<lambda>v. case v of Str s \<Rightarrow> sample_time s | _ \<Rightarrow> None),
       local_year = sample_year,
       parse_iso = sample_time,
       dfns_format = (\<lambda>d p. Inl RangeError),
       sort_by_difference = (\<lambda>xs. xs),
       json_stringify = (\<lambda>r. ''{}''),
       json_parse =
         (\<lambda>s. if s = stored_predictions then Inr (Some [pile 1 ''2024-05-01'' (Str ''high'')])
              else Inl SyntaxError),
       type_error_message = ''Cannot read properties of undefined'' \<rparr>"

definition calendar_initial :: calendar_state where
  \<comment> \<open>the state of the calendar page when it is mounted in 2024, with the cache of an
      earlier session in local storage\<close>
  "calendar_initial =
     \<lparr> predictions = Some [], loading = True, dateRange = None, currentYear = Num 2024,
       availableYears = [], realFiresData = None, showComparison = False,
       evaluationMetrics = None, selectedPiles = {}, availablePiles = [],
       storage = [''predictions'' \<mapsto> stored_predictions, ''firesUploaded'' \<mapsto> ''true''],
       calendar_date = None, alerts = [], console_errors = [] \<rparr>"

definition dashboard_ready :: dashboard_state where
  \<comment> \<open>the dashboard with the three required files uploaded\<close>
  "dashboard_ready =
     \<lparr> supplies = Some \<lparr> file_name = ''supplies.csv'', file_size = 2048 \<rparr>,
       fires = None,
       temperature = Some \<lparr> file_name = ''temperature.csv'', file_size = 4096 \<rparr>,
       weather = [\<lparr> file_name = ''weather_2024.csv'', file_size = 1024 \<rparr>],
       predicting = False, error_text = Null, success = Null, d_dateRange = None,
       d_storage = Map.empty, navigation = None \<rparr>"

definition network_error :: api_error where
  \<comment> \<open>the error of a request that got no response\<close>
  "network_error = \<lparr> detail = Undefined, message = Str ''Network Error'' \<rparr>"

definition metrics_at_target :: metrics where
  \<comment> \<open>evaluation metrics whose \<open>accuracy_pm2\<close> is the double \<open>0.7\<close>\<close>
  "metrics_at_target =
     \<lparr> mae = Num (7 / 4), accuracy_pm1 = Num (1 / 2), accuracy_pm2 = Num lit_0_7,
       accuracy_pm3 = Num (7 / 8), total_predictions = Num 100, correct_pm2 = Num 70 \<rparr>"

definition metrics_below_target :: metrics where
  \<comment> \<open>evaluation metrics whose \<open>accuracy_pm2\<close> is the double \<open>0.69\<close>\<close>
  "metrics_below_target =
     \<lparr> mae = Num (7 / 4), accuracy_pm1 = Num (1 / 2), accuracy_pm2 = Num lit_0_69,
       accuracy_pm3 = Num (7 / 8), total_predictions = Num 100, correct_pm2 = Num 69 \<rparr>"

section \<open>Properties\<close>

subsection \<open>Object literals\<close>

lemma get_prop_own: "map_of obj (to_string rt k) = Some v \<Longrightarrow> get_prop rt obj k = v"
  by (simp add: get_prop_def)

lemma get_prop_inherited:
  "map_of obj (to_string rt k) = None \<Longrightarrow> to_string rt k \<in> set object_prototype_keys \<Longrightarrow>
   get_prop rt obj k = Builtin (to_string rt k)"
  by (simp add: get_prop_def)

lemma get_prop_absent:
  "map_of obj (to_string rt k) = None \<Longrightarrow> to_string rt k \<notin> set object_prototype_keys \<Longrightarrow>
   get_prop rt obj k = Undefined"
  by (simp add: get_prop_def)

lemma unknown_keys [simp]:
  "''null'' \<notin> set object_prototype_keys"
  "''undefined'' \<notin> set object_prototype_keys"
  "''NaN'' \<notin> set object_prototype_keys"
  by (simp_all add: object_prototype_keys_def)

subsection \<open>Risk colours\<close>

lemma getRiskColor_levels:
  "getRiskColor rt (Str ''critical'') = Str ''#dc2626''"
  "getRiskColor rt (Str ''high'') = Str ''#ea580c''"
  "getRiskColor rt (Str ''medium'') = Str ''#eab308''"
  "getRiskColor rt (Str ''low'') = Str ''#16a34a''"
  by (simp_all add: getRiskColor_def get_prop_def risk_colors_def js_or_def)

lemma getRiskColor_fallback:
  assumes "s \<notin> {''critical'', ''high'', ''medium'', ''low''}"
    and "s \<notin> set object_prototype_keys"
  shows "getRiskColor rt (Str s) = Str ''#16a34a''"
  using assms by (simp add: getRiskColor_def get_prop_def risk_colors_def js_or_def)

lemma getRiskColor_missing:
  "getRiskColor rt Null = Str ''#16a34a''" "getRiskColor rt Undefined = Str ''#16a34a''"
  by (simp_all add: getRiskColor_def get_prop_def risk_colors_def js_or_def)

text \<open>
  C10 (the colour of a risk level outside the four known ones): the claim says that every
  other value, any unknown string included, gets the colour of the low level. The lookup
  \<open>colors[riskLevel]\<close> also finds the members every object literal inherits, so
  for the level \<open>constructor\<close> the result is that inherited function, which is truthy
  and is returned instead of a colour. Levels that are neither own nor inherited keys do
  get the low colour (\<open>getRiskColor_fallback\<close>, \<open>getRiskColor_missing\<close>).
\<close>

theorem getRiskColor_inherited_key:
  "getRiskColor rt (Str ''constructor'') = Builtin ''constructor''"
  by (simp add: getRiskColor_def get_prop_def risk_colors_def js_or_def
      object_prototype_keys_def)

subsection \<open>Per-date statistics\<close>

lemma strict_eq_truthy: "truthy d \<Longrightarrow> strict_eq x d = (x = d)"
  by (cases d) (auto simp: strict_eq_def)

lemma dateStats_total:
  "truthy d \<Longrightarrow>
   total (dateStats d ps) = length (filter (\<lambda>p. predicted_fire_date p = d) ps)"
  by (simp add: dateStats_def Let_def strict_eq_truthy)

text \<open>
  C3 (per-date statistics): the total is the number of records predicted for the selected
  date (\<open>dateStats_total\<close>), but a record without a risk level is counted under no
  level, so the four counts do not add up to the total: for one such record the total is 1
  and every count is 0, while the card of the same record on the same page is rendered
  under the level \<open>low\<close>.
\<close>

theorem dateStats_missing_risk_level:
  "dateStats (Str ''2024-05-01'') [pile 1 ''2024-05-01'' Undefined] =
     \<lparr> total = 1, critical = 0, high = 0, medium = 0, low = 0 \<rparr> \<and>
   card_risk_level (pile 1 ''2024-05-01'' Undefined) = Str ''low''"
  by (simp add: dateStats_def pile_def count_risk_def strict_eq_def card_risk_level_def
      js_or_def Let_def)

subsection \<open>Formatters\<close>

text \<open>
  C5 as stated fails on the date formatter, which renders \<open>null\<close> as the empty
  string, not as the placeholder: the card that shows dates substitutes the placeholder
  itself.
\<close>

theorem formatDate_blank:
  "formatDate utc_sample Null = Inr [] \<and> formatDate utc_sample Null \<noteq> Inr em_dash"
  by (simp add: formatDate_def em_dash_def)

text \<open>
  C5, as amended (display formatters on unknown input): for \<open>null\<close>,
  \<open>undefined\<close> and \<open>NaN\<close> the value, number, percentage and confidence formatters
  return the placeholder (an em dash), the risk label is the fixed label for an unknown
  level, and the two date formatters return the empty string; none of them throws or
  prints \<open>NaN\<close> on these inputs.
\<close>

theorem formatters_unknown:
  assumes "is_unknown v"
  shows "formatValue v default_placeholder = Str em_dash \<and>
         formatNumber rt v d default_placeholder = Inr (Str em_dash) \<and>
         formatPercentage rt v d default_placeholder = Inr (Str em_dash) \<and>
         formatConfidence rt v default_placeholder = Inr (Str em_dash) \<and>
         getRiskLabel rt v = Str label_unknown \<and>
         formatDate rt v = Inr [] \<and>
         formatDateTime rt v = Inr []"
proof -
  have falsy: "\<not> truthy v"
    using assms by (auto simp: is_unknown_def)
  have key: "to_string rt v \<in> {''null'', ''undefined'', ''NaN''}"
    using assms by (auto simp: is_unknown_def)
  have "map_of risk_labels (to_string rt v) = None"
    using key by (auto simp: risk_labels_def)
  moreover have "to_string rt v \<notin> set object_prototype_keys"
    using key by auto
  ultimately have "get_prop rt risk_labels v = Undefined"
    by (rule get_prop_absent)
  then have "getRiskLabel rt v = Str label_unknown"
    by (simp add: getRiskLabel_def js_or_def)
  then show ?thesis
    using assms falsy
    by (simp add: formatValue_def formatNumber_def formatPercentage_def formatConfidence_def
        formatDate_def formatDateTime_def default_placeholder_def)
qed

theorem formatters_unknown_witness:
  "is_unknown NaN \<and> is_unknown Null \<and>
   formatNumber utc_sample NaN 1 default_placeholder = Inr (Str em_dash) \<and>
   formatNumber utc_sample Null 1 default_placeholder = Inr (Str em_dash) \<and>
   formatDate utc_sample NaN = Inr []"
proof -
  have a: "is_unknown NaN" and b: "is_unknown Null" by (simp_all add: is_unknown_def)
  show ?thesis
    using a b formatters_unknown [OF a, of utc_sample 1] formatters_unknown [OF b, of utc_sample 1]
    by simp
qed

subsection \<open>Decimal numerals\<close>

lemma digit_char_0: "digit_char 0 = CHR ''0''"
  by (simp add: digit_char_def)

lemma dec_digits_nonempty: "dec_digits n \<noteq> []"
  by (subst dec_digits.simps) simp

lemma dec_digits_small: "n < 10 \<Longrightarrow> dec_digits n = [digit_char n]"
  by (subst dec_digits.simps) simp

lemma dec_digits_large:
  "10 \<le> n \<Longrightarrow> dec_digits n = dec_digits (n div 10) @ [digit_char (n mod 10)]"
  by (subst dec_digits.simps) simp

lemma fixed_point_two:
  "fixed_point n 2 =
     dec_digits (n div 100) @ ''.'' @ [digit_char (n div 10 mod 10), digit_char (n mod 10)]"
proof -
  consider "n < 10" | "10 \<le> n" "n < 100" | "100 \<le> n" by linarith
  then show ?thesis
  proof cases
    case 1
    then show ?thesis
      by (simp add: fixed_point_def Let_def dec_digits_small digit_char_0)
  next
    case 2
    then have "n div 10 < 10" by simp
    then show ?thesis using 2
      by (simp add: fixed_point_def Let_def dec_digits_small dec_digits_large digit_char_0)
  next
    case 3
    then have "10 \<le> n div 10" by simp
    moreover have "n div 10 div 10 = n div 100" by (simp add: div_mult2_eq)
    moreover have "dec_digits (n div 100) \<noteq> []" by (rule dec_digits_nonempty)
    ultimately show ?thesis using 3
      by (simp add: fixed_point_def Let_def dec_digits_large)
  qed
qed

lemma fixed_point_one:
  "fixed_point n 1 = dec_digits (n div 10) @ ''.'' @ [digit_char (n mod 10)]"
proof (cases "n < 10")
  case True
  then show ?thesis by (simp add: fixed_point_def Let_def dec_digits_small digit_char_0)
next
  case False
  moreover have "dec_digits (n div 10) \<noteq> []" by (rule dec_digits_nonempty)
  ultimately show ?thesis
    by (simp add: fixed_point_def Let_def dec_digits_large)
qed

lemma number_toFixed_two:
  assumes "\<bar>x\<bar> < 10 ^ 21"
  shows "number_toFixed rt (Some x) 2 =
           Inr ((if x < 0 then ''-'' else []) @
                (let n = nat \<lfloor>\<bar>x\<bar> * 100 + 1 / 2\<rfloor> in
                 dec_digits (n div 100) @ ''.'' @
                 [digit_char (n div 10 mod 10), digit_char (n mod 10)]))"
  using assms by (simp add: number_toFixed_def fixed_point_two Let_def)

lemma number_toFixed_one:
  assumes "\<bar>x\<bar> < 10 ^ 21"
  shows "number_toFixed rt (Some x) 1 =
           Inr ((if x < 0 then ''-'' else []) @
                (let n = nat \<lfloor>\<bar>x\<bar> * 10 + 1 / 2\<rfloor> in
                 dec_digits (n div 10) @ ''.'' @ [digit_char (n mod 10)]))"
  using assms fixed_point_one [of "nat \<lfloor>\<bar>x\<bar> * 10 + 1 / 2\<rfloor>"]
  by (simp add: number_toFixed_def Let_def)

subsection \<open>Metrics summary\<close>

text \<open>
  C4 (metrics summary): an absent input gives no result. For metrics with numeric fields
  the summary exists; \<open>meetsTarget\<close> holds exactly when \<open>accuracy_pm2\<close> is at least
  the double \<open>0.7\<close>; the mean absolute error is the numeral with two fraction digits
  nearest to it; the accuracy is the numeral with one fraction digit nearest to its product
  with 100, followed by a percent sign; the two counts pass through unchanged. The function
  is a pure transformation of its argument.
\<close>

theorem calculateMetricsSummary_spec:
  assumes "mae m = Num x" and "\<bar>x\<bar> < 10 ^ 21"
    and "accuracy_pm2 m = Num a" and "\<bar>float_mul rt a 100\<bar> < 10 ^ 21"
    and "total_predictions m = Num t" and "correct_pm2 m = Num c"
  shows "calculateMetricsSummary rt None = Inr None \<and>
         (\<exists>s. calculateMetricsSummary rt (Some m) = Inr (Some s) \<and>
              meetsTarget s = (lit_0_7 \<le> a) \<and>
              summary_mae s =
                Str ((if x < 0 then ''-'' else []) @
                     (let n = nat \<lfloor>\<bar>x\<bar> * 100 + 1 / 2\<rfloor> in
                      dec_digits (n div 100) @ ''.'' @
                      [digit_char (n div 10 mod 10), digit_char (n mod 10)])) \<and>
              accuracyPm2 s =
                (if float_mul rt a 100 < 0 then ''-'' else []) @
                (let n = nat \<lfloor>\<bar>float_mul rt a 100\<bar> * 10 + 1 / 2\<rfloor> in
                 dec_digits (n div 10) @ ''.'' @ [digit_char (n mod 10)]) @ ''%'' \<and>
              totalPredictions s = Num t \<and>
              correctPm2 s = Num c)"
proof -
  have absent: "calculateMetricsSummary rt None = Inr None"
    by (simp add: calculateMetricsSummary_def)
  have m2: "optional_toFixed rt (mae m) 2 =
      Inr (Str ((if x < 0 then ''-'' else []) @
                (let n = nat \<lfloor>\<bar>x\<bar> * 100 + 1 / 2\<rfloor> in
                 dec_digits (n div 100) @ ''.'' @
                 [digit_char (n div 10 mod 10), digit_char (n mod 10)])))"
    using assms(1) number_toFixed_two [OF assms(2), of rt]
    by (simp add: optional_toFixed_def)
  have pct: "number_toFixed rt (times_100 rt (to_number rt (accuracy_pm2 m))) 1 =
      Inr ((if float_mul rt a 100 < 0 then ''-'' else []) @
           (let n = nat \<lfloor>\<bar>float_mul rt a 100\<bar> * 10 + 1 / 2\<rfloor> in
            dec_digits (n div 10) @ ''.'' @ [digit_char (n mod 10)]))"
    using assms(3) number_toFixed_one [OF assms(4)]
    by (simp add: times_100_def)
  have target: "js_ge rt (accuracy_pm2 m) lit_0_7 = (lit_0_7 \<le> a)"
    using assms(3) by (simp add: js_ge_def)
  show ?thesis
    using absent m2 pct target assms(5,6)
    by (simp add: calculateMetricsSummary_def js_or_def Let_def)
qed

theorem calculateMetricsSummary_spec_witness:
  "(\<exists>s. calculateMetricsSummary utc_sample (Some metrics_at_target) = Inr (Some s) \<and>
        meetsTarget s = True \<and> totalPredictions s = Num 100 \<and> correctPm2 s = Num 70) \<and>
   (\<exists>s. calculateMetricsSummary utc_sample (Some metrics_below_target) = Inr (Some s) \<and>
        meetsTarget s = False) \<and>
   calculateMetricsSummary utc_sample None = Inr None"
proof -
  have h1: "mae metrics_at_target = Num (7 / 4)" "\<bar>7 / 4 :: rat\<bar> < 10 ^ 21"
    "accuracy_pm2 metrics_at_target = Num lit_0_7"
    "\<bar>float_mul utc_sample lit_0_7 100\<bar> < 10 ^ 21"
    "total_predictions metrics_at_target = Num 100" "correct_pm2 metrics_at_target = Num 70"
    by (simp_all add: metrics_at_target_def utc_sample_def lit_0_7_def)
  have h2: "mae metrics_below_target = Num (7 / 4)" "\<bar>7 / 4 :: rat\<bar> < 10 ^ 21"
    "accuracy_pm2 metrics_below_target = Num lit_0_69"
    "\<bar>float_mul utc_sample lit_0_69 100\<bar> < 10 ^ 21"
    "total_predictions metrics_below_target = Num 100" "correct_pm2 metrics_below_target = Num 69"
    by (simp_all add: metrics_below_target_def utc_sample_def lit_0_69_def)
  have below: "\<not> lit_0_7 \<le> lit_0_69"
    by (simp add: lit_0_7_def lit_0_69_def)
  from calculateMetricsSummary_spec [OF h1] obtain s1 where
    s1: "calculateMetricsSummary utc_sample (Some metrics_at_target) = Inr (Some s1)"
      "meetsTarget s1 = (lit_0_7 \<le> lit_0_7)" "totalPredictions s1 = Num 100"
      "correctPm2 s1 = Num 70"
    and absent: "calculateMetricsSummary utc_sample None = Inr None"
    by blast
  from calculateMetricsSummary_spec [OF h2] obtain s2 where
    s2: "calculateMetricsSummary utc_sample (Some metrics_below_target) = Inr (Some s2)"
      "meetsTarget s2 = (lit_0_7 \<le> lit_0_69)"
    by blast
  show ?thesis using s1 s2 absent below by simp
qed

lemma calculateMetricsSummary_example:
  "calculateMetricsSummary utc_sample (Some metrics_at_target) =
     Inr (Some \<lparr> summary_mae = Str ''1.75'', accuracyPm2 = ''70.0%'',
                  totalPredictions = Num 100, correctPm2 = Num 70, meetsTarget = True \<rparr>)"
proof -
  have f1: "\<lfloor>351 / 2 :: rat\<rfloor> = 175"
    by (rule floor_unique) simp_all
  have f2: "\<lfloor>394346442371629031 / 562949953421312 :: rat\<rfloor> = 700"
    by (rule floor_unique) simp_all
  have d1: "dec_digits 1 = ''1''" and d7: "dec_digits 70 = ''70''"
    by (simp_all add: dec_digits_small dec_digits_large digit_char_def)
  show ?thesis
    by (simp add: calculateMetricsSummary_def metrics_at_target_def utc_sample_def lit_0_7_def
        optional_toFixed_def number_toFixed_def times_100_def js_ge_def js_or_def
        fixed_point_one [unfolded One_nat_def] fixed_point_two f1 f2 d1 [unfolded One_nat_def] d7 digit_char_def)
qed

subsection \<open>Upload validation\<close>

text \<open>
  C8 (upload validation): the function is total and returns a structured result. A file
  whose name does not end in \<open>.csv\<close> is rejected with a message whatever its size; a
  \<open>.csv\<close> file larger than the configured maximum is rejected with a message; a
  \<open>.csv\<close> file at or under the maximum is accepted with \<open>{valid: true}\<close>. Without
  configuration the maximum is 52428800 bytes, which is 50 MiB. The result depends on the file's name and
  size and on the configured value only. The message is the field \<open>error\<close> of the
  result.
\<close>

theorem validateCSVFile_spec:
  "(\<not> endsWith (file_name f) ''.csv'' \<longrightarrow>
      \<not> valid (validateCSVFile rt scaled env_max f) \<and>
      error (validateCSVFile rt scaled env_max f) \<noteq> None) \<and>
   (\<forall>limit. to_number rt (js_or env_max default_max_size) = Some limit \<longrightarrow>
      (endsWith (file_name f) ''.csv'' \<and> limit < of_nat (file_size f) \<longrightarrow>
         \<not> valid (validateCSVFile rt scaled env_max f) \<and>
         error (validateCSVFile rt scaled env_max f) \<noteq> None) \<and>
      (endsWith (file_name f) ''.csv'' \<and> of_nat (file_size f) \<le> limit \<longrightarrow>
         validateCSVFile rt scaled env_max f = \<lparr> valid = True, error = None \<rparr>)) \<and>
   to_number rt (js_or Undefined default_max_size) = Some (50 * 1024 * 1024)"
  by (auto simp: validateCSVFile_def Let_def js_gt_def js_or_def default_max_size_def)

theorem validateCSVFile_spec_witness:
  "\<not> endsWith ''data.txt'' ''.csv'' \<and>
   \<not> valid (validateCSVFile utc_sample (\<lambda>v. ''50 MB'') Undefined
            \<lparr> file_name = ''data.txt'', file_size = 10 \<rparr>) \<and>
   endsWith ''data.csv'' ''.csv'' \<and>
   \<not> valid (validateCSVFile utc_sample (\<lambda>v. ''50 MB'') Undefined
            \<lparr> file_name = ''data.csv'', file_size = 52428801 \<rparr>) \<and>
   validateCSVFile utc_sample (\<lambda>v. ''50 MB'') Undefined
     \<lparr> file_name = ''data.csv'', file_size = 52428800 \<rparr> = \<lparr> valid = True, error = None \<rparr> \<and>
   \<not> valid (validateCSVFile utc_sample (\<lambda>v. ''1000 Bytes'') (Str ''1000'')
            \<lparr> file_name = ''data.csv'', file_size = 1001 \<rparr>)"
proof -
  have not_csv: "\<not> endsWith ''data.txt'' ''.csv''" and csv: "endsWith ''data.csv'' ''.csv''"
    by (simp_all add: endsWith_def)
  have dflt: "to_number utc_sample (js_or Undefined default_max_size) = Some 52428800"
    by (simp add: js_or_def default_max_size_def)
  have conf: "to_number utc_sample (js_or (Str ''1000'') default_max_size) = Some 1000"
    by (simp add: js_or_def utc_sample_def)
  show ?thesis
    using not_csv csv dflt conf
      validateCSVFile_spec [of "\<lparr> file_name = ''data.txt'', file_size = 10 \<rparr>" utc_sample
        "\<lambda>v. ''50 MB''" Undefined]
      validateCSVFile_spec [of "\<lparr> file_name = ''data.csv'', file_size = 52428801 \<rparr>" utc_sample
        "\<lambda>v. ''50 MB''" Undefined]
      validateCSVFile_spec [of "\<lparr> file_name = ''data.csv'', file_size = 52428800 \<rparr>" utc_sample
        "\<lambda>v. ''50 MB''" Undefined]
      validateCSVFile_spec [of "\<lparr> file_name = ''data.csv'', file_size = 1001 \<rparr>" utc_sample
        "\<lambda>v. ''1000 Bytes''" "Str ''1000''"]
    by simp
qed

subsection \<open>Calendar events\<close>

lemma prediction_event_fields [simp]:
  "start (prediction_event rt p) = predicted_fire_date p"
  "backgroundColor (prediction_event rt p) = getRiskColor rt (risk_level p)"
  "borderColor (prediction_event rt p) = getRiskColor rt (risk_level p)"
  "extendedProps (prediction_event rt p) =
     PredictionProps p (pile_id p) (predicted_days_to_fire_rounded p)"
  by (simp_all add: prediction_event_def)

lemma match_events_pileId:
  "e \<in> set (match_events rt m) \<Longrightarrow> props_pileId (extendedProps e) = m_pile_id m"
  by (auto simp: match_events_def Let_def split: if_splits)

lemma allEvents_pileId:
  assumes "e \<in> set (allEvents rt preds sc rf sel)"
  shows "pile_selected sel (props_pileId (extendedProps e))"
proof (cases "comparison_active sc rf")
  case True
  with assms obtain m where "m \<in> set (case rf of None \<Rightarrow> [] | Some rs \<Rightarrow> rs)"
    and "pile_selected sel (m_pile_id m)" and "e \<in> set (match_events rt m)"
    by (auto simp: allEvents_def Let_def)
  then show ?thesis by (simp add: match_events_pileId)
next
  case False
  with assms show ?thesis
    by (auto simp: allEvents_def Let_def processCalendarEvents_def)
qed

lemma events_subset:
  "e \<in> set (events rt ps y sc rf sel) \<Longrightarrow>
   \<exists>preds. ps = Some preds \<and> preds \<noteq> [] \<and> e \<in> set (allEvents rt preds sc rf sel) \<and>
     event_in_year rt y e"
  by (auto simp: events_def split: option.splits if_splits)

text \<open>
  C6 (pile filter): every entry of the event list carries a pile id that is in the selected
  set, unless that set is empty; so for a non-empty selection that leaves a pile id out, no
  entry of the list carries that pile id. This holds in both modes.
\<close>

theorem events_pile_filter:
  "(\<forall>e \<in> set (events rt ps y sc rf sel).
      sel = {} \<or> props_pileId (extendedProps e) \<in> sel) \<and>
   (sel \<noteq> {} \<and> pid \<notin> sel \<longrightarrow>
      (\<forall>e \<in> set (events rt ps y sc rf sel). props_pileId (extendedProps e) \<noteq> pid))"
proof -
  have "pile_selected sel (props_pileId (extendedProps e))"
    if "e \<in> set (events rt ps y sc rf sel)" for e
    using events_subset [OF that] allEvents_pileId by blast
  then show ?thesis
    by (auto simp: pile_selected_def)
qed

text \<open>
  C7 (year filter): every entry of the returned list has an anchor date whose calendar year
  is the selected year, and the returned list is the constructed list without the entries
  of other years. This holds in both modes.
\<close>

theorem events_year_filter:
  "(\<forall>e \<in> set (events rt ps y sc rf sel).
      strict_eq (getFullYear rt (new_Date rt (start e))) y) \<and>
   (\<forall>preds. ps = Some preds \<and> preds \<noteq> [] \<longrightarrow>
      events rt ps y sc rf sel =
        filter (\<lambda>e. strict_eq (getFullYear rt (new_Date rt (start e))) y)
          (allEvents rt preds sc rf sel))"
  by (auto simp: events_def event_in_year_def split: option.splits intro: filter_cong)

lemma events_predictions:
  assumes "\<not> comparison_active sc rf"
  shows "events rt (Some preds) y sc rf sel =
           map (prediction_event rt)
             (filter (\<lambda>p. pile_selected sel (pile_id p) \<and>
                          strict_eq (getFullYear rt (new_Date rt (predicted_fire_date p))) y)
                preds)"
  using assms
  by (simp add: events_def allEvents_def processCalendarEvents_def filter_map comp_def
      event_in_year_def conj_commute)

lemma count_entries:
  "length (filter (\<lambda>e. extendedProps e =
              PredictionProps p (pile_id p) (predicted_days_to_fire_rounded p))
            (map (prediction_event rt) qs)) = count_list qs p"
  by (induction qs) auto

text \<open>
  C1, as amended (entries of predictions): outside comparison mode, one entry is built for
  every occurrence of a record whose pile id is selected (or with an empty selection), and
  the returned event list has these entries when the year of the record's predicted fire
  date is the selected year, and no entry of the record otherwise. Each entry of the record is anchored at its predicted
  fire date, has the colour of its risk level as background and border, and carries the
  whole record. The four risk levels have the colours of the table.
\<close>

theorem prediction_events_per_record:
  assumes "\<not> comparison_active sc rf" and "pile_selected sel (pile_id p)"
  shows "length (filter (\<lambda>e. extendedProps e =
                    PredictionProps p (pile_id p) (predicted_days_to_fire_rounded p))
                  (allEvents rt preds sc rf sel)) = count_list preds p \<and>
         length (filter (\<lambda>e. extendedProps e =
                    PredictionProps p (pile_id p) (predicted_days_to_fire_rounded p))
                  (events rt (Some preds) y sc rf sel)) =
           (if strict_eq (getFullYear rt (new_Date rt (predicted_fire_date p))) y
            then count_list preds p else 0) \<and>
         (\<forall>e \<in> set (events rt (Some preds) y sc rf sel).
            extendedProps e = PredictionProps p (pile_id p) (predicted_days_to_fire_rounded p)
            \<longrightarrow> start e = predicted_fire_date p \<and>
                backgroundColor e = getRiskColor rt (risk_level p) \<and>
                borderColor e = getRiskColor rt (risk_level p)) \<and>
         getRiskColor rt (Str ''critical'') = Str ''#dc2626'' \<and>
         getRiskColor rt (Str ''high'') = Str ''#ea580c'' \<and>
         getRiskColor rt (Str ''medium'') = Str ''#eab308'' \<and>
         getRiskColor rt (Str ''low'') = Str ''#16a34a''"
proof -
  let ?Q = "\<lambda>q. pile_selected sel (pile_id q) \<and>
                strict_eq (getFullYear rt (new_Date rt (predicted_fire_date q))) y"
  have ev: "events rt (Some preds) y sc rf sel = map (prediction_event rt) (filter ?Q preds)"
    using assms(1) by (rule events_predictions)
  have c1: "count_list (filter ?Q preds) p = (if ?Q p then count_list preds p else 0)"
    by (induction preds) auto
  have c2: "?Q p = strict_eq (getFullYear rt (new_Date rt (predicted_fire_date p))) y"
    using assms(2) by simp
  have count: "length (filter (\<lambda>e. extendedProps e =
                    PredictionProps p (pile_id p) (predicted_days_to_fire_rounded p))
                  (events rt (Some preds) y sc rf sel)) =
           (if strict_eq (getFullYear rt (new_Date rt (predicted_fire_date p))) y
            then count_list preds p else 0)"
    unfolding ev count_entries c1 c2 by (rule refl)
  have fields: "\<forall>e \<in> set (events rt (Some preds) y sc rf sel).
            extendedProps e = PredictionProps p (pile_id p) (predicted_days_to_fire_rounded p)
            \<longrightarrow> start e = predicted_fire_date p \<and>
                backgroundColor e = getRiskColor rt (risk_level p) \<and>
                borderColor e = getRiskColor rt (risk_level p)"
    by (auto simp: ev)
  have c3: "count_list (filter (\<lambda>q. pile_selected sel (pile_id q)) preds) p = count_list preds p"
    using assms(2) by (induction preds) auto
  have all: "allEvents rt preds sc rf sel =
      map (prediction_event rt) (filter (\<lambda>q. pile_selected sel (pile_id q)) preds)"
    using assms(1) by (simp add: allEvents_def processCalendarEvents_def)
  have built: "length (filter (\<lambda>e. extendedProps e =
                    PredictionProps p (pile_id p) (predicted_days_to_fire_rounded p))
                  (allEvents rt preds sc rf sel)) = count_list preds p"
    unfolding all count_entries c3 by (rule refl)
  show ?thesis
    using built count fields by (simp add: getRiskColor_levels)
qed

lemma events_comparison:
  assumes "comparison_active sc (Some rs)" and "preds \<noteq> []"
  shows "events rt (Some preds) y sc (Some rs) sel =
           concat (map (\<lambda>m. filter (event_in_year rt y) (match_events rt m))
                     (filter (\<lambda>m. pile_selected sel (m_pile_id m)) rs))"
  using assms by (simp add: events_def allEvents_def filter_concat comp_def)

text \<open>
  C2, as amended (entries of evaluation matches): in comparison mode with a non-empty
  prediction list, the entries of the included match records are built in order, and the
  returned event list consists of those whose anchor date lies in the selected year. A record that is a match has exactly
  one entry, anchored at the real fire date, typed and coloured as a match; any other record
  has exactly two, a prediction anchored at the predicted date and a real fire anchored at
  the real date; each carries pile id, stockyard and coal grade.
\<close>

theorem comparison_events_per_match:
  assumes "comparison_active sc (Some rs)" and "preds \<noteq> []"
  shows "allEvents rt preds sc (Some rs) sel =
           concat (map (match_events rt) (filter (\<lambda>m. pile_selected sel (m_pile_id m)) rs)) \<and>
         events rt (Some preds) y sc (Some rs) sel =
           concat (map (\<lambda>m. filter (event_in_year rt y) (match_events rt m))
                     (filter (\<lambda>m. pile_selected sel (m_pile_id m)) rs)) \<and>
         (truthy (m_is_match m) \<longrightarrow>
            (\<exists>e. match_events rt m = [e] \<and>
                 start e = new_Date rt (m_real_fire_date m) \<and>
                 props_type (extendedProps e) = Str ''match'' \<and>
                 backgroundColor e = Str ''#16a34a'' \<and> borderColor e = Str ''#16a34a'' \<and>
                 props_pileId (extendedProps e) = m_pile_id m \<and>
                 props_stockyard (extendedProps e) = m_stockyard m \<and>
                 props_coalGrade (extendedProps e) = m_coal_grade m)) \<and>
         (\<not> truthy (m_is_match m) \<longrightarrow>
            (\<exists>e1 e2. match_events rt m = [e1, e2] \<and>
                 start e1 = new_Date rt (m_predicted_fire_date m) \<and>
                 props_type (extendedProps e1) = Str ''prediction'' \<and>
                 backgroundColor e1 = Str ''#3b82f6'' \<and>
                 props_pileId (extendedProps e1) = m_pile_id m \<and>
                 props_stockyard (extendedProps e1) = m_stockyard m \<and>
                 props_coalGrade (extendedProps e1) = m_coal_grade m \<and>
                 start e2 = new_Date rt (m_real_fire_date m) \<and>
                 props_type (extendedProps e2) = Str ''real'' \<and>
                 backgroundColor e2 = Str ''#dc2626'' \<and>
                 props_pileId (extendedProps e2) = m_pile_id m \<and>
                 props_stockyard (extendedProps e2) = m_stockyard m \<and>
                 props_coalGrade (extendedProps e2) = m_coal_grade m))"
  using events_comparison [OF assms] assms(1)
  by (simp add: match_events_def allEvents_def Let_def)

subsection \<open>Failed service calls\<close>

lemma msg_nonempty [simp]: "msg_no_matches \<noteq> []" "msg_predict_failed \<noteq> []"
  by (simp_all add: msg_no_matches_def msg_predict_failed_def)

lemma no_matches_text: "to_string rt (error_message no_matches_error) = msg_no_matches"
  by (simp add: error_message_def no_matches_error_def js_or_def)

lemma evaluation_failed_keeps:
  "predictions (evaluation_failed rt err st) = predictions st"
  "realFiresData (evaluation_failed rt err st) = realFiresData st"
  "evaluationMetrics (evaluation_failed rt err st) = evaluationMetrics st"
  "alerts (evaluation_failed rt err st) = alerts st @ [to_string rt (error_message err)]"
  "loading (evaluation_failed rt err st) = False"
  by (simp_all add: evaluation_failed_def)

text \<open>
  C9, as amended (failed service calls). When the evaluation call is rejected, or resolves
  without matched predictions, the predictions, the real-fires data and the evaluation
  metrics stay as they were and one message is shown. When the prediction trigger of the
  dashboard fails, the date range, the local storage, the success notice and the navigation
  stay as they were and an error message is set. When the fetch of the predictions is
  rejected, nothing is shown: the failure is logged, and the predictions are replaced by
  the list cached in local storage when there is one, and stay as they were when there is
  none.
\<close>

theorem failed_calls_keep_state:
  "(storage st ''firesUploaded'' = Some ''true'' \<longrightarrow>
      (\<forall>call \<in> {Rejected err, Resolved None, Resolved (Some (r \<lparr> matched_predictions := None \<rparr>))}.
         predictions (loadRealFiresData rt call st) = predictions st \<and>
         realFiresData (loadRealFiresData rt call st) = realFiresData st \<and>
         evaluationMetrics (loadRealFiresData rt call st) = evaluationMetrics st \<and>
         alerts (loadRealFiresData rt call st) =
           alerts st @ [case call of Rejected e \<Rightarrow> to_string rt (error_message e)
                                   | Resolved x \<Rightarrow> msg_no_matches])) \<and>
   (supplies ds \<noteq> None \<and> temperature ds \<noteq> None \<and> weather ds \<noteq> [] \<longrightarrow>
      (\<forall>call \<in> {Rejected err, Resolved None}.
         d_dateRange (handlePredict rt call ds) = d_dateRange ds \<and>
         d_storage (handlePredict rt call ds) = d_storage ds \<and>
         success (handlePredict rt call ds) = success ds \<and>
         navigation (handlePredict rt call ds) = navigation ds \<and>
         truthy (error_text (handlePredict rt call ds)) \<and>
         \<not> predicting (handlePredict rt call ds)) \<and>
      error_text (handlePredict rt (Rejected err) ds) =
        js_or (message err) (Str msg_predict_failed)) \<and>
   (storage st ''predictions'' = None \<longrightarrow>
      fetchPredictions rt now_year has_calendar (Rejected err) st =
        (None, st \<lparr> loading := False,
                      console_errors := console_errors st @ [''Error fetching predictions:''] \<rparr>)) \<and>
   (\<forall>stored ps. storage st ''predictions'' = Some stored \<and> stored \<noteq> [] \<and>
        json_parse rt stored = Inr ps \<longrightarrow>
      fetchPredictions rt now_year has_calendar (Rejected err) st =
        (None, st \<lparr> predictions := ps, loading := False,
                      console_errors := console_errors st @ [''Error fetching predictions:''] \<rparr>))"
proof -
  have evaluation: "predictions (loadRealFiresData rt call st) = predictions st \<and>
         realFiresData (loadRealFiresData rt call st) = realFiresData st \<and>
         evaluationMetrics (loadRealFiresData rt call st) = evaluationMetrics st \<and>
         alerts (loadRealFiresData rt call st) =
           alerts st @ [case call of Rejected e \<Rightarrow> to_string rt (error_message e)
                                   | Resolved x \<Rightarrow> msg_no_matches]"
    if "storage st ''firesUploaded'' = Some ''true''"
      and "call \<in> {Rejected err, Resolved None, Resolved (Some (r \<lparr> matched_predictions := None \<rparr>))}"
    for call
    using that
    by (auto simp: loadRealFiresData_def Let_def evaluation_failed_keeps no_matches_text)
  have trigger: "d_dateRange (handlePredict rt call ds) = d_dateRange ds \<and>
         d_storage (handlePredict rt call ds) = d_storage ds \<and>
         success (handlePredict rt call ds) = success ds \<and>
         navigation (handlePredict rt call ds) = navigation ds \<and>
         truthy (error_text (handlePredict rt call ds)) \<and>
         \<not> predicting (handlePredict rt call ds)"
    if "supplies ds \<noteq> None" "temperature ds \<noteq> None" "weather ds \<noteq> []"
      and "call \<in> {Rejected err, Resolved None}"
    for call
    using that by (auto simp: handlePredict_def Let_def js_or_def)
  have shown: "error_text (handlePredict rt (Rejected err) ds) =
        js_or (message err) (Str msg_predict_failed)"
    if "supplies ds \<noteq> None" "temperature ds \<noteq> None" "weather ds \<noteq> []"
    using that by (auto simp: handlePredict_def Let_def)
  have no_cache: "fetchPredictions rt now_year has_calendar (Rejected err) st =
        (None, st \<lparr> loading := False,
                      console_errors := console_errors st @ [''Error fetching predictions:''] \<rparr>)"
    if "storage st ''predictions'' = None"
    using that by (simp add: fetchPredictions_def predictions_fallback_def Let_def)
  have cache: "fetchPredictions rt now_year has_calendar (Rejected err) st =
        (None, st \<lparr> predictions := ps, loading := False,
                      console_errors := console_errors st @ [''Error fetching predictions:''] \<rparr>)"
    if "storage st ''predictions'' = Some stored" "stored \<noteq> []" "json_parse rt stored = Inr ps"
    for stored ps
    using that by (simp add: fetchPredictions_def predictions_fallback_def Let_def)
  show ?thesis
    using evaluation trigger shown no_cache cache by blast
qed

subsection \<open>Evaluation\<close>

lemma utc_sample_dates [simp]:
  "date_parse utc_sample (Str s) = sample_time s"
  "local_year utc_sample ms = sample_year ms"
  by (simp_all add: utc_sample_def)

lemma year_of_sample [simp]:
  "getFullYear utc_sample (new_Date utc_sample (Str ''2024-05-01'')) = Num 2024"
  "getFullYear utc_sample (new_Date utc_sample (Str ''2024-01-02'')) = Num 2024"
  "getFullYear utc_sample (new_Date utc_sample (Str ''2023-12-30'')) = Num 2023"
  "getFullYear utc_sample (new_Date utc_sample (new_Date utc_sample (Str ''2024-05-01''))) = Num 2024"
  "getFullYear utc_sample (new_Date utc_sample (new_Date utc_sample (Str ''2024-01-02''))) = Num 2024"
  "getFullYear utc_sample (new_Date utc_sample (new_Date utc_sample (Str ''2023-12-30''))) = Num 2023"
  by (simp_all add: getFullYear_def new_Date_def sample_time_def sample_year_def)

lemmas eval_defs =
  events_def allEvents_def comparison_active_def pile_selected_def processCalendarEvents_def
  prediction_event_def match_events_def event_in_year_def strict_eq_def pile_def matched_def
  Let_def

text \<open>
  C1 as stated fails for a record predicted for another year than the selected one: the
  record is included by the pile filter, and the event list has no entry for it.
\<close>

theorem prediction_events_other_year:
  "\<not> comparison_active False None \<and>
   pile_selected {} (pile_id (pile 1 ''2023-12-30'' (Str ''high''))) \<and>
   events utc_sample (Some [pile 1 ''2023-12-30'' (Str ''high'')]) (Num 2024) False None {} = []"
  by (simp add: eval_defs)

theorem prediction_events_per_record_witness:
  "\<not> comparison_active False None \<and>
   pile_selected {Num 1} (pile_id (pile 1 ''2024-05-01'' (Str ''high''))) \<and>
   length (filter (\<lambda>e. extendedProps e =
       PredictionProps (pile 1 ''2024-05-01'' (Str ''high'')) (Num 1) (Num 5))
     (events utc_sample
        (Some [pile 1 ''2024-05-01'' (Str ''high''), pile 2 ''2024-05-01'' (Str ''low'')])
        (Num 2024) False None {Num 1})) = 1"
proof -
  have a: "\<not> comparison_active False None"
    by (simp add: comparison_active_def)
  have b: "pile_selected {Num 1} (pile_id (pile 1 ''2024-05-01'' (Str ''high'')))"
    by (simp add: pile_selected_def pile_def)
  show ?thesis
    using a b
      prediction_events_per_record [OF a b, where rt = utc_sample and y = "Num 2024"
        and preds = "[pile 1 ''2024-05-01'' (Str ''high''), pile 2 ''2024-05-01'' (Str ''low'')]"]
    by (simp add: pile_def strict_eq_def)
qed

text \<open>
  C2 as stated fails where the year filter or the guard on an empty prediction list
  applies: a match in another year has no entry, a non-match whose two dates lie in
  different years has one entry, and with an empty prediction list there is no entry at
  all.
\<close>

theorem comparison_events_dropped:
  "comparison_active True (Some [matched 1 ''2023-12-30'' ''2023-12-30'' True]) \<and>
   pile_selected {} (m_pile_id (matched 1 ''2023-12-30'' ''2023-12-30'' True)) \<and>
   events utc_sample (Some [pile 1 ''2023-12-30'' (Str ''high'')]) (Num 2024) True
     (Some [matched 1 ''2023-12-30'' ''2023-12-30'' True]) {} = [] \<and>
   length (events utc_sample (Some [pile 1 ''2023-12-30'' (Str ''high'')]) (Num 2024) True
     (Some [matched 1 ''2023-12-30'' ''2024-01-02'' False]) {}) = 1 \<and>
   events utc_sample (Some []) (Num 2024) True
     (Some [matched 1 ''2024-05-01'' ''2024-05-01'' True]) {} = []"
  by (simp add: eval_defs)

theorem comparison_events_per_match_witness:
  "comparison_active True
     (Some [matched 1 ''2024-05-01'' ''2024-05-01'' True,
            matched 2 ''2023-12-30'' ''2024-01-02'' False]) \<and>
   [pile 1 ''2024-05-01'' (Str ''high'')] \<noteq> [] \<and>
   truthy (m_is_match (matched 1 ''2024-05-01'' ''2024-05-01'' True)) \<and>
   map (\<lambda>e. props_type (extendedProps e))
     (events utc_sample (Some [pile 1 ''2024-05-01'' (Str ''high'')]) (Num 2024) True
        (Some [matched 1 ''2024-05-01'' ''2024-05-01'' True,
               matched 2 ''2023-12-30'' ''2024-01-02'' False]) {}) =
     [Str ''match'', Str ''real''] \<and>
   length (match_events utc_sample (matched 1 ''2024-05-01'' ''2024-05-01'' True)) = 1"
proof -
  have a: "comparison_active True
     (Some [matched 1 ''2024-05-01'' ''2024-05-01'' True,
            matched 2 ''2023-12-30'' ''2024-01-02'' False])"
    by (simp add: comparison_active_def)
  have b: "[pile 1 ''2024-05-01'' (Str ''high'')] \<noteq> []"
    by simp
  have c: "truthy (m_is_match (matched 1 ''2024-05-01'' ''2024-05-01'' True))"
    by (simp add: matched_def)
  from comparison_events_per_match [OF a b, where rt = utc_sample and y = "Num 2024"
      and sel = "{}" and m = "matched 1 ''2024-05-01'' ''2024-05-01'' True"] c
  obtain e where
    ev: "events utc_sample (Some [pile 1 ''2024-05-01'' (Str ''high'')]) (Num 2024) True
        (Some [matched 1 ''2024-05-01'' ''2024-05-01'' True,
               matched 2 ''2023-12-30'' ''2024-01-02'' False]) {} =
      concat (map (\<lambda>m. filter (event_in_year utc_sample (Num 2024)) (match_events utc_sample m))
        (filter (\<lambda>m. pile_selected {} (m_pile_id m))
           [matched 1 ''2024-05-01'' ''2024-05-01'' True,
            matched 2 ''2023-12-30'' ''2024-01-02'' False]))"
    and one: "match_events utc_sample (matched 1 ''2024-05-01'' ''2024-05-01'' True) = [e]"
    by blast
  have "map (\<lambda>e. props_type (extendedProps e))
     (concat (map (\<lambda>m. filter (event_in_year utc_sample (Num 2024)) (match_events utc_sample m))
        (filter (\<lambda>m. pile_selected {} (m_pile_id m))
           [matched 1 ''2024-05-01'' ''2024-05-01'' True,
            matched 2 ''2023-12-30'' ''2024-01-02'' False]))) =
     [Str ''match'', Str ''real'']"
    by (simp add: eval_defs)
  then show ?thesis
    using a b c ev one by simp
qed

theorem events_pile_filter_witness:
  "{Num 1} \<noteq> ({} :: jsval set) \<and> Num 2 \<notin> {Num 1 :: jsval} \<and>
   Num 2 \<notin> (\<lambda>e. props_pileId (extendedProps e)) `
     set (events utc_sample
            (Some [pile 1 ''2024-05-01'' (Str ''high''), pile 2 ''2024-05-01'' (Str ''low'')])
            (Num 2024) False None {Num 1}) \<and>
   Num 2 \<notin> (\<lambda>e. props_pileId (extendedProps e)) `
     set (events utc_sample
            (Some [pile 1 ''2024-05-01'' (Str ''high''), pile 2 ''2024-05-01'' (Str ''low'')])
            (Num 2024) True
            (Some [matched 1 ''2024-05-01'' ''2024-05-01'' True,
                   matched 2 ''2024-05-01'' ''2024-01-02'' False]) {Num 1}) \<and>
   length (events utc_sample
            (Some [pile 1 ''2024-05-01'' (Str ''high''), pile 2 ''2024-05-01'' (Str ''low'')])
            (Num 2024) False None {Num 1}) = 1"
proof -
  define plain where "plain = events utc_sample
    (Some [pile 1 ''2024-05-01'' (Str ''high''), pile 2 ''2024-05-01'' (Str ''low'')])
    (Num 2024) False None {Num 1}"
  define compared where "compared = events utc_sample
    (Some [pile 1 ''2024-05-01'' (Str ''high''), pile 2 ''2024-05-01'' (Str ''low'')])
    (Num 2024) True
    (Some [matched 1 ''2024-05-01'' ''2024-05-01'' True,
           matched 2 ''2024-05-01'' ''2024-01-02'' False]) {Num 1}"
  have a: "{Num 1} \<noteq> ({} :: jsval set)" and b: "Num 2 \<notin> {Num 1 :: jsval}"
    by simp_all
  have c: "length plain = 1"
    unfolding plain_def by (simp add: eval_defs)
  note plain_filter = events_pile_filter [of utc_sample
      "Some [pile 1 ''2024-05-01'' (Str ''high''), pile 2 ''2024-05-01'' (Str ''low'')]"
      "Num 2024" False None "{Num 1}" "Num 2", folded plain_def]
  note compared_filter = events_pile_filter [of utc_sample
      "Some [pile 1 ''2024-05-01'' (Str ''high''), pile 2 ''2024-05-01'' (Str ''low'')]"
      "Num 2024" True
      "Some [matched 1 ''2024-05-01'' ''2024-05-01'' True,
             matched 2 ''2024-05-01'' ''2024-01-02'' False]" "{Num 1}" "Num 2",
      folded compared_def]
  have p: "Num 2 \<notin> (\<lambda>e. props_pileId (extendedProps e)) ` set plain"
    using a b plain_filter by auto
  have q: "Num 2 \<notin> (\<lambda>e. props_pileId (extendedProps e)) ` set compared"
    using a b compared_filter by auto
  show ?thesis
    using a b c p q unfolding plain_def compared_def by (intro conjI)
qed

theorem events_year_filter_witness:
  "list_all (\<lambda>e. strict_eq (getFullYear utc_sample (new_Date utc_sample (start e))) (Num 2024))
     (events utc_sample
        (Some [pile 1 ''2024-05-01'' (Str ''high''), pile 2 ''2023-12-30'' (Str ''low'')])
        (Num 2024) False None {}) \<and>
   length (events utc_sample
        (Some [pile 1 ''2024-05-01'' (Str ''high''), pile 2 ''2023-12-30'' (Str ''low'')])
        (Num 2024) False None {}) = 1 \<and>
   list_all (\<lambda>e. strict_eq (getFullYear utc_sample (new_Date utc_sample (start e))) (Num 2024))
     (events utc_sample (Some [pile 1 ''2024-05-01'' (Str ''high'')]) (Num 2024) True
        (Some [matched 2 ''2023-12-30'' ''2024-01-02'' False]) {}) \<and>
   length (events utc_sample (Some [pile 1 ''2024-05-01'' (Str ''high'')]) (Num 2024) True
        (Some [matched 2 ''2023-12-30'' ''2024-01-02'' False]) {}) = 1"
proof -
  have c: "length (events utc_sample
        (Some [pile 1 ''2024-05-01'' (Str ''high''), pile 2 ''2023-12-30'' (Str ''low'')])
        (Num 2024) False None {}) = 1"
    "length (events utc_sample (Some [pile 1 ''2024-05-01'' (Str ''high'')]) (Num 2024) True
        (Some [matched 2 ''2023-12-30'' ''2024-01-02'' False]) {}) = 1"
    by (simp_all add: eval_defs)
  show ?thesis
    using c
      events_year_filter [of utc_sample
        "Some [pile 1 ''2024-05-01'' (Str ''high''), pile 2 ''2023-12-30'' (Str ''low'')]"
        "Num 2024" False None "{}"]
      events_year_filter [of utc_sample "Some [pile 1 ''2024-05-01'' (Str ''high'')]"
        "Num 2024" True "Some [matched 2 ''2023-12-30'' ''2024-01-02'' False]" "{}"]
    by (simp only: list_all_iff) blast
qed

text \<open>
  C9 as stated fails for the fetch of the predictions: when it is rejected, the predictions
  of the page are replaced by the cached list, and no message is shown.
\<close>

theorem fetch_failure_replaces_predictions:
  "predictions calendar_initial = Some [] \<and>
   predictions (snd (fetchPredictions utc_sample (Num 2024) True (Rejected network_error)
       calendar_initial)) = Some [pile 1 ''2024-05-01'' (Str ''high'')] \<and>
   alerts (snd (fetchPredictions utc_sample (Num 2024) True (Rejected network_error)
       calendar_initial)) = []"
  by (simp add: fetchPredictions_def predictions_fallback_def calendar_initial_def
      utc_sample_def Let_def stored_predictions_def)

theorem failed_calls_keep_state_witness:
  "storage calendar_initial ''firesUploaded'' = Some ''true'' \<and>
   predictions (loadRealFiresData utc_sample (Rejected network_error) calendar_initial) =
     Some [] \<and>
   realFiresData (loadRealFiresData utc_sample (Rejected network_error) calendar_initial) =
     None \<and>
   evaluationMetrics (loadRealFiresData utc_sample (Rejected network_error) calendar_initial) =
     None \<and>
   alerts (loadRealFiresData utc_sample (Rejected network_error) calendar_initial) =
     [''Network Error''] \<and>
   supplies dashboard_ready \<noteq> None \<and> temperature dashboard_ready \<noteq> None \<and>
   weather dashboard_ready \<noteq> [] \<and>
   d_dateRange (handlePredict utc_sample (Rejected network_error) dashboard_ready) = None \<and>
   error_text (handlePredict utc_sample (Rejected network_error) dashboard_ready) =
     Str ''Network Error''"
proof -
  have a: "storage calendar_initial ''firesUploaded'' = Some ''true''"
    by (simp add: calendar_initial_def)
  have b: "supplies dashboard_ready \<noteq> None \<and> temperature dashboard_ready \<noteq> None \<and>
      weather dashboard_ready \<noteq> []"
    by (simp add: dashboard_ready_def)
  have c: "predictions calendar_initial = Some []" "realFiresData calendar_initial = None"
    "evaluationMetrics calendar_initial = None" "alerts calendar_initial = []"
    "d_dateRange dashboard_ready = None"
    by (simp_all add: calendar_initial_def dashboard_ready_def)
  have d: "to_string utc_sample (error_message network_error) = ''Network Error''"
    "js_or (message network_error) (Str msg_predict_failed) = Str ''Network Error''"
    by (simp_all add: error_message_def network_error_def js_or_def)
  show ?thesis
    using a b c d
      failed_calls_keep_state [where st = calendar_initial and err = network_error
        and rt = utc_sample and ds = dashboard_ready]
    by simp
qed

end
